theory Spec2Isabelle
  imports Main
begin

section \<open>The StaticSitesClient install action\<close>

text \<open>
  A shallow embedding of \<^verbatim>\<open>install.ts\<close>, \<^verbatim>\<open>main.ts\<close>, \<^verbatim>\<open>execute.ts\<close> and the input helper
  (\<^verbatim>\<open>getInputs\<close>, \<^verbatim>\<open>getBooleanInput\<close>).

  A JavaScript string is a \<open>string\<close>: one \<open>char\<close> per UTF-16 code unit, for the code
  units below 256. The line terminators U+2028 and U+2029 and the white space above
  U+00FF therefore do not occur.

  An asynchronous function is a function to a \<open>run\<close>: how the call ends (it returns, it
  throws, or the process exits) and the calls it made to the outside, in order. What
  the outside answers (the network, the cache, the file system, the commands run, the
  URL parser, \<^verbatim>\<open>path\<close>) is a field of the \<open>host\<close>, so a property proved for every host
  holds whatever the outside answers.
\<close>

subsection \<open>Strings\<close>

definition is_digit :: "char \<Rightarrow> bool" where
  \<comment> \<open>the class \<^verbatim>\<open>\d\<close> of a regular expression without the \<^verbatim>\<open>u\<close> flag: 0 to 9\<close>
  "is_digit c = (48 \<le> (of_char c :: nat) \<and> (of_char c :: nat) \<le> 57)"

definition is_line_terminator :: "char \<Rightarrow> bool" where
  "is_line_terminator c = ((of_char c :: nat) = 10 \<or> (of_char c :: nat) = 13)"

definition regex_dot :: "char \<Rightarrow> bool" where
  \<comment> \<open>the atom \<^verbatim>\<open>.\<close>: any code unit that is no line terminator\<close>
  "regex_dot c = (\<not> is_line_terminator c)"

definition is_white_space :: "char \<Rightarrow> bool" where
  \<comment> \<open>what \<^verbatim>\<open>String.prototype.trim\<close> strips: TAB, LF, VT, FF, CR, SP, NBSP\<close>
  "is_white_space c =
     ((9 \<le> (of_char c :: nat) \<and> (of_char c :: nat) \<le> 13)
      \<or> (of_char c :: nat) = 32 \<or> (of_char c :: nat) = 160)"

definition trim :: "string \<Rightarrow> string" where
  "trim s = rev (dropWhile is_white_space (rev (dropWhile is_white_space s)))"

definition toLowerCase_char :: "char \<Rightarrow> char" where
  \<comment> \<open>A to Z, and the Latin-1 capitals U+00C0 to U+00DE but U+00D7\<close>
  "toLowerCase_char c =
     (let n = (of_char c :: nat)
      in if (65 \<le> n \<and> n \<le> 90) \<or> (192 \<le> n \<and> n \<le> 222 \<and> n \<noteq> 215)
         then char_of (n + 32) else c)"

definition toLowerCase :: "string \<Rightarrow> string" where
  "toLowerCase s = map toLowerCase_char s"

fun split :: "char \<Rightarrow> string \<Rightarrow> string list" where
  \<comment> \<open>\<^verbatim>\<open>s.split(sep)\<close> for a separator of one character; never the empty list\<close>
  "split sep [] = [[]]"
| "split sep (c # cs) =
     (if c = sep then [] # split sep cs
      else (case split sep cs of [] \<Rightarrow> [[c]] | s # ss \<Rightarrow> (c # s) # ss))"

fun digits_of_nat :: "nat \<Rightarrow> string" where
  "digits_of_nat n =
     (if n < 10 then [char_of (48 + n)]
      else digits_of_nat (n div 10) @ [char_of (48 + n mod 10)])"

definition template :: "string option \<Rightarrow> string" where
  \<comment> \<open>a string field inside a template literal; a missing field prints as \<^verbatim>\<open>undefined\<close>\<close>
  "template v = (case v of None \<Rightarrow> ''undefined'' | Some s \<Rightarrow> s)"

subsection \<open>The version pattern\<close>

text \<open>
  \<^verbatim>\<open>/([\d])+.([\d])+.([\d]+)/.test(releaseVersion)\<close>: somewhere in the string, one or more
  digits, one character, one or more digits, one character, one or more digits. The
  functions below follow the expression from a position on, the separator class \<open>sep\<close>
  being \<open>regex_dot\<close> in the source; \<open>group2\<close> and \<open>group1\<close> are entered after the first digit
  of their group.
\<close>

fun group3 :: "string \<Rightarrow> bool" where
  "group3 [] = False"
| "group3 (c # cs) = is_digit c"

fun group2 :: "(char \<Rightarrow> bool) \<Rightarrow> string \<Rightarrow> bool" where
  "group2 sep [] = False"
| "group2 sep (c # cs) = ((is_digit c \<and> group2 sep cs) \<or> (sep c \<and> group3 cs))"

fun group1 :: "(char \<Rightarrow> bool) \<Rightarrow> string \<Rightarrow> bool" where
  "group1 sep [] = False"
| "group1 sep (c # cs) =
     ((is_digit c \<and> group1 sep cs)
      \<or> (sep c \<and> (case cs of [] \<Rightarrow> False | d # ds \<Rightarrow> is_digit d \<and> group2 sep ds)))"

fun matches_at :: "(char \<Rightarrow> bool) \<Rightarrow> string \<Rightarrow> bool" where
  "matches_at sep [] = False"
| "matches_at sep (c # cs) = (is_digit c \<and> group1 sep cs)"

fun regex_test :: "(char \<Rightarrow> bool) \<Rightarrow> string \<Rightarrow> bool" where
  "regex_test sep [] = False"
| "regex_test sep (c # cs) = (matches_at sep (c # cs) \<or> regex_test sep cs)"

definition version_pattern_test :: "string \<Rightarrow> bool" where
  \<comment> \<open>the test of \<^verbatim>\<open>getReleaseMetadata\<close>\<close>
  "version_pattern_test s = regex_test regex_dot s"

definition dotted_triple_test :: "string \<Rightarrow> bool" where
  \<comment> \<open>the specification's pattern \<^verbatim>\<open>\d+\.\d+\.\d+\<close>, the separators being full stops\<close>
  "dotted_triple_test s = regex_test (\<lambda>c. c = CHR ''.'') s"

subsection \<open>Results, events and the host\<close>

text \<open>
  A thrown value is an error with its message or something else; the messages of the
  errors that Node and \<^verbatim>\<open>@actions/core\<close> raise are abridged (no quotation marks, one line).
\<close>

datatype thrown =
  JsError string  \<comment> \<open>an \<^verbatim>\<open>Error\<close> (or a subclass such as \<^verbatim>\<open>TypeError\<close>) with its message\<close>
  | NonError  \<comment> \<open>any thrown value that is not an \<^verbatim>\<open>instanceof Error\<close>\<close>

datatype 'a outcome =
  Returned 'a
  | Thrown thrown  \<comment> \<open>the promise rejects\<close>
  | Exited  \<comment> \<open>\<^verbatim>\<open>process.exit()\<close>: the process ends, no handler runs\<close>

text \<open>Every call that leaves the action, in the order of the run.\<close>

datatype event =
  Info string | Warning string | Debug string
  | SetFailed string  \<comment> \<open>\<^verbatim>\<open>core.setFailed\<close> with the message, or with an \<^verbatim>\<open>Error\<close> of that message\<close>
  | AddPath string
  | Fetch string
  | Exec string "string list"
  | RestoreCache "string list" string
  | SaveCache "string list" string
  | Download string string  \<comment> \<open>\<^verbatim>\<open>toolCache.downloadTool(url, dest)\<close>\<close>
  | MkdirP string
  | Cp string string
  | Chmod string nat
  | RmRF string

type_synonym 'a run = "'a outcome \<times> event list"

record url =
  href :: string
  pathname :: string

text \<open>
  A release of the metadata document: the fields that are present are strings, a missing
  one is \<open>None\<close> (\<^verbatim>\<open>undefined\<close>).
\<close>

record release_entry =
  buildId :: "string option"
  version :: "string option"
  files :: "(string \<times> string) list"  \<comment> \<open>\<^verbatim>\<open>files[key].url\<close> by key\<close>

datatype metadata_document =
  NotAnArray
  | Array "release_entry option list"  \<comment> \<open>\<open>None\<close> is a \<^verbatim>\<open>null\<close> element\<close>

text \<open>
  The host: what the process reads and what every outside call answers. \<open>Inl\<close> is a
  thrown value; a file operation answers \<open>None\<close> when it succeeds.
\<close>

record host =
  platform :: string  \<comment> \<open>\<^verbatim>\<open>process.platform\<close>\<close>
  arch :: string  \<comment> \<open>\<^verbatim>\<open>process.arch\<close>\<close>
  TEMP_DIRECTORY :: string  \<comment> \<open>\<^verbatim>\<open>process.env.RUNNER_TEMP || os.tmpdir()\<close>\<close>
  action_input :: "string \<Rightarrow> string"  \<comment> \<open>\<^verbatim>\<open>process.env['INPUT_' + NAME] || ''\<close> by input name\<close>
  path_normalize :: "string \<Rightarrow> string"  \<comment> \<open>what \<^verbatim>\<open>path.join\<close> does to the joined segments\<close>
  toPlatformPath :: "string \<Rightarrow> string"
  uuid :: string  \<comment> \<open>what \<^verbatim>\<open>uuid()\<close> answers in \<open>downloadTool\<close>\<close>
  new_URL :: "string \<Rightarrow> thrown + url"
  fetch_json :: "string \<Rightarrow> thrown + metadata_document"  \<comment> \<open>\<^verbatim>\<open>fetch\<close>, then \<^verbatim>\<open>response.json()\<close>\<close>
  getExecOutput :: "string \<Rightarrow> string list \<Rightarrow> thrown + string"  \<comment> \<open>the \<^verbatim>\<open>stdout\<close>\<close>
  restoreCache :: "string list \<Rightarrow> string \<Rightarrow> thrown + string option"
  saveCache :: "string list \<Rightarrow> string \<Rightarrow> thrown + int"
  tc_downloadTool :: "string \<Rightarrow> string \<Rightarrow> thrown + string"
  mkdirP :: "string \<Rightarrow> thrown option"
  cp :: "string \<Rightarrow> string \<Rightarrow> thrown option"
  chmodSync :: "string \<Rightarrow> nat \<Rightarrow> thrown option"
  rmRF :: "string \<Rightarrow> thrown option"
  exponent_notation :: "int \<Rightarrow> string"
    \<comment> \<open>how JavaScript prints a number of magnitude \<open>10 ^ 21\<close> or more, as in \<^verbatim>\<open>1e+21\<close>\<close>

text \<open>
  An integer number inside a template literal: JavaScript prints every digit of a number
  of magnitude below \<open>10 ^ 21\<close>, and exponent notation from there on.
\<close>

definition number_string :: "host \<Rightarrow> int \<Rightarrow> string" where
  "number_string h i =
     (if \<bar>i\<bar> < 10 ^ 21
      then (if i < 0 then CHR ''-'' # digits_of_nat (nat (- i)) else digits_of_nat (nat i))
      else exponent_notation h i)"

definition ret :: "'a \<Rightarrow> 'a run" where
  "ret x = (Returned x, [])"

definition throw :: "thrown \<Rightarrow> 'a run" where
  "throw e = (Thrown e, [])"

definition process_exit :: "'a run" where
  "process_exit = (Exited, [])"

definition emit :: "event \<Rightarrow> unit run" where
  "emit ev = (Returned (), [ev])"

definition prepend :: "event list \<Rightarrow> 'a run \<Rightarrow> 'a run" where
  \<comment> \<open>a run after the events \<open>es\<close>\<close>
  "prepend es m = (fst m, es @ snd m)"

definition bind :: "'a run \<Rightarrow> ('a \<Rightarrow> 'b run) \<Rightarrow> 'b run" where
  \<comment> \<open>\<^verbatim>\<open>await m\<close>, then the rest of the function\<close>
  "bind m f =
     (case m of
        (Returned x, es) \<Rightarrow> prepend es (f x)
      | (Thrown e, es) \<Rightarrow> (Thrown e, es)
      | (Exited, es) \<Rightarrow> (Exited, es))"

definition try_catch :: "'a run \<Rightarrow> (thrown \<Rightarrow> 'a run) \<Rightarrow> 'a run" where
  \<comment> \<open>\<^verbatim>\<open>try { m } catch (error) { h error }\<close>\<close>
  "try_catch m h =
     (case m of
        (Thrown e, es) \<Rightarrow> prepend es (h e)
      | _ \<Rightarrow> m)"

definition call :: "event \<Rightarrow> thrown + 'a \<Rightarrow> 'a run" where
  \<comment> \<open>an outside call and its answer\<close>
  "call ev r = (case r of Inl e \<Rightarrow> (Thrown e, [ev]) | Inr x \<Rightarrow> (Returned x, [ev]))"

definition call_unit :: "event \<Rightarrow> thrown option \<Rightarrow> unit run" where
  "call_unit ev r = (case r of Some e \<Rightarrow> (Thrown e, [ev]) | None \<Rightarrow> (Returned (), [ev]))"

definition path_join :: "host \<Rightarrow> string list \<Rightarrow> string" where
  \<comment> \<open>\<^verbatim>\<open>path.join\<close>: the empty segments are left out, the rest is joined and normalised.
      The separator is the one of POSIX; no statement below reads it.\<close>
  "path_join h segs =
     (case filter (\<lambda>s. s \<noteq> []) segs of
        [] \<Rightarrow> ''.''
      | s # ss \<Rightarrow> path_normalize h (foldl (\<lambda>joined arg. joined @ ''/'' @ arg) s ss))"

definition warn_if_error :: "thrown \<Rightarrow> unit run" where
  \<comment> \<open>\<^verbatim>\<open>if (error instanceof Error) core.warning(error.message)\<close>\<close>
  "warn_if_error e = (case e of JsError m \<Rightarrow> emit (Warning m) | NonError \<Rightarrow> ret ())"

subsection \<open>install.ts\<close>

definition TOOL_NAME :: string where
  "TOOL_NAME = ''StaticSitesClient''"

definition TOOL_VERSION_ARG :: "string list" where
  "TOOL_VERSION_ARG = [''version'']"

definition TOOL_RELEASE_METADATA :: string where
  "TOOL_RELEASE_METADATA = ''https://swalocaldeploy.azureedge.net/downloads/versions.json''"

record install_result =
  name :: string
  result_version :: "string option"
  path :: string
  restoredFromCache :: bool
  downloadUrl :: "string option"

definition getToolVersion :: "host \<Rightarrow> string \<Rightarrow> string list \<Rightarrow> string run" where
  "getToolVersion h command args =
     bind (call (Exec command args) (getExecOutput h command args)) (\<lambda>stdout. ret (trim stdout))"

definition getLsbRelease :: "host \<Rightarrow> string run" where
  "getLsbRelease h =
     bind (call (Exec ''lsb_release'' [''-cs'']) (getExecOutput h ''lsb_release'' [''-cs'']))
       (\<lambda>stdout. ret (trim stdout))"

definition getCacheKey :: "host \<Rightarrow> string \<Rightarrow> string run" where
  "getCacheKey h version_marker =
     bind (if platform h = ''linux''
           then bind (getLsbRelease h) (\<lambda>lsbRelease.
                  ret ((TOOL_NAME @ ''-'' @ version_marker @ ''-'' @ platform h @ ''-'' @ arch h)
                        @ ''-'' @ lsbRelease))
           else ret (TOOL_NAME @ ''-'' @ version_marker @ ''-'' @ platform h @ ''-'' @ arch h))
       (\<lambda>cacheKey.
          bind (emit (Info (''Cache key: '' @ cacheKey @ ''-cache'')))
            (\<lambda>_. ret (cacheKey @ ''-cache'')))"

definition mode_0755 :: nat where
  "mode_0755 = 7 * 8 ^ 2 + 5 * 8 + 5"

definition extractPackage :: "host \<Rightarrow> string \<Rightarrow> string \<Rightarrow> string \<Rightarrow> unit run" where
  "extractPackage h downloadPath pathToInstall filename =
     (let destinationPath = path_join h [pathToInstall, filename]
      in bind (call_unit (MkdirP pathToInstall) (mkdirP h pathToInstall)) (\<lambda>_.
         bind (call_unit (Cp downloadPath destinationPath) (cp h downloadPath destinationPath)) (\<lambda>_.
         bind (call_unit (Chmod destinationPath mode_0755) (chmodSync h destinationPath mode_0755)) (\<lambda>_.
         bind (call_unit (RmRF downloadPath) (rmRF h downloadPath)) (\<lambda>_.
         emit (Info (''Extracted '' @ filename @ '' to '' @ pathToInstall)))))))"

definition downloadTool :: "host \<Rightarrow> url \<Rightarrow> string \<Rightarrow> string run" where
  "downloadTool h u filename =
     try_catch
       (bind (call (Download (href u) (path_join h [TEMP_DIRECTORY h, uuid h, filename]))
                (tc_downloadTool h (href u) (path_join h [TEMP_DIRECTORY h, uuid h, filename])))
          (\<lambda>downloadPath.
             bind (emit (Info (''Downloaded from '' @ href u @ '' to '' @ downloadPath)))
               (\<lambda>_. ret downloadPath)))
       (\<lambda>error.
          bind (case error of
                  JsError m \<Rightarrow>
                    emit (SetFailed (''Could not download '' @ TOOL_NAME @ '' from '' @ href u
                                      @ '', error: '' @ m))
                | NonError \<Rightarrow> ret ())
            (\<lambda>_. process_exit))"

definition trySaveToCache :: "host \<Rightarrow> string list \<Rightarrow> string \<Rightarrow> int run" where
  "trySaveToCache h paths key =
     try_catch
       (bind (call (SaveCache paths key) (saveCache h paths key)) (\<lambda>cacheId.
          bind (emit (Info (TOOL_NAME @ '' saved to cache (cacheId: '' @ number_string h cacheId
                             @ '', cacheKey: '' @ key @ '')'')))
            (\<lambda>_. ret cacheId)))
       (\<lambda>error. bind (warn_if_error error) (\<lambda>_. ret 0))"

definition tryRestoreFromCache :: "host \<Rightarrow> string list \<Rightarrow> string \<Rightarrow> (bool \<times> string option) run" where
  "tryRestoreFromCache h paths primaryKey =
     try_catch
       (bind (call (RestoreCache paths primaryKey) (restoreCache h paths primaryKey))
          (\<lambda>cacheHitKey.
             case cacheHitKey of
               Some k \<Rightarrow>
                 bind (emit (Info (TOOL_NAME @ '' restored from cache: '' @ k)))
                   (\<lambda>_. ret (True, Some k))
             | None \<Rightarrow>
                 bind (emit (Warning (''Cache for '' @ TOOL_NAME @ '' not found'')))
                   (\<lambda>_. ret (False, None))))
       (\<lambda>error. bind (warn_if_error error) (\<lambda>_. ret (False, None)))"

definition filename_of :: "string \<Rightarrow> string" where
  \<comment> \<open>\<^verbatim>\<open>pathname.split('/').slice(1).at(-1) || ''\<close>\<close>
  "filename_of p = (case tl (split CHR ''/'' p) of [] \<Rightarrow> [] | s # ss \<Rightarrow> last (s # ss))"

definition getDownloadUrl :: "host \<Rightarrow> release_entry \<Rightarrow> (url \<times> string) run" where
  "getDownloadUrl h releaseMetadata =
     (if arch h \<noteq> ''x64''
      then bind (emit (SetFailed (''Unsupported architecture: '' @ arch h))) (\<lambda>_. process_exit)
      else
        bind (if platform h = ''win32'' then ret ''win''
              else if platform h = ''darwin'' then ret ''osx''
              else if platform h = ''linux'' then ret ''linux''
              else bind (emit (SetFailed (''Unsupported platform: '' @ platform h)))
                     (\<lambda>_. process_exit))
          (\<lambda>platform_key.
             case map_of (files releaseMetadata) (platform_key @ ''-'' @ arch h) of
               None \<Rightarrow> throw (JsError ''Cannot read properties of undefined (reading url)'')
             | Some u \<Rightarrow>
                 (case new_URL h u of
                    Inl e \<Rightarrow> throw e
                  | Inr parsed \<Rightarrow> ret (parsed, filename_of (pathname parsed)))))"

definition entry_matches :: "(release_entry \<Rightarrow> string option) \<Rightarrow> string \<Rightarrow> release_entry option \<Rightarrow> bool" where
  \<comment> \<open>\<^verbatim>\<open>(vd === null || vd === void 0 ? void 0 : vd.field) === releaseVersion\<close>\<close>
  "entry_matches field releaseVersion vd =
     (case vd of None \<Rightarrow> False | Some e \<Rightarrow> field e = Some releaseVersion)"

definition find_entry :: "(release_entry \<Rightarrow> string option) \<Rightarrow> string \<Rightarrow> release_entry option list \<Rightarrow> release_entry option" where
  \<comment> \<open>\<^verbatim>\<open>Array.prototype.find\<close>; \<open>None\<close> is \<^verbatim>\<open>undefined\<close>\<close>
  "find_entry field releaseVersion vds =
     (case find (entry_matches field releaseVersion) vds of Some (Some e) \<Rightarrow> Some e | _ \<Rightarrow> None)"

definition getReleaseMetadata :: "host \<Rightarrow> string \<Rightarrow> release_entry option run" where
  "getReleaseMetadata h releaseVersion =
     bind (emit (Info (''Fetching release metadata for version: '' @ releaseVersion))) (\<lambda>_.
     bind (call (Fetch TOOL_RELEASE_METADATA) (fetch_json h TOOL_RELEASE_METADATA))
       (\<lambda>remoteVersionDefinitions.
          case remoteVersionDefinitions of
            Array (vd # vds) \<Rightarrow>
              if version_pattern_test releaseVersion
              then ret (find_entry buildId releaseVersion (vd # vds))
              else ret (find_entry version releaseVersion (vd # vds))
          | _ \<Rightarrow>
              bind (emit (SetFailed (''Could not fetch release metadata from ''
                                      @ TOOL_RELEASE_METADATA)))
                (\<lambda>_. process_exit)))"

record source_inputs =
  inputs_version :: string
  execute :: bool

definition Install :: "host \<Rightarrow> source_inputs \<Rightarrow> install_result run" where
  "Install h inputs =
     bind (getReleaseMetadata h (inputs_version inputs)) (\<lambda>found.
       case found of
         None \<Rightarrow> throw (JsError ''Cannot read properties of undefined (reading buildId)'')
       | Some releaseMetadata \<Rightarrow>
           (let versionMarker = template (buildId releaseMetadata) @ ''-''
                                @ template (version releaseMetadata);
                pathToInstall = path_join h [TEMP_DIRECTORY h, TOOL_NAME @ ''-'' @ versionMarker]
            in
            bind (emit (Info (''Version to install: '' @ versionMarker
                               @ '' (target directory: '' @ pathToInstall @ '')''))) (\<lambda>_.
            bind (getCacheKey h versionMarker) (\<lambda>cacheKey.
            bind (tryRestoreFromCache h [pathToInstall] cacheKey) (\<lambda>restored.
            bind (if fst restored = False
                  then
                    bind (getDownloadUrl h releaseMetadata) (\<lambda>found_url.
                    bind (downloadTool h (fst found_url) (snd found_url)) (\<lambda>downloadPath.
                    bind (extractPackage h downloadPath pathToInstall (snd found_url)) (\<lambda>_.
                    bind (trySaveToCache h [pathToInstall] cacheKey) (\<lambda>_.
                    ret (Some (href (fst found_url)))))))
                  else ret None)
              (\<lambda>downloadUrlHref.
            bind (emit (AddPath (toPlatformPath h pathToInstall))) (\<lambda>_.
            bind (getToolVersion h TOOL_NAME TOOL_VERSION_ARG) (\<lambda>toolVersion.
            bind (emit (Debug toolVersion)) (\<lambda>_.
            ret \<lparr>name = TOOL_NAME, result_version = version releaseMetadata,
                 path = pathToInstall, restoredFromCache = fst restored,
                 downloadUrl = downloadUrlHref\<rparr>)))))))))"

subsection \<open>execute.ts, the input helper and main.ts\<close>

definition Execute :: "host \<Rightarrow> string \<Rightarrow> unit run" where
  "Execute h tool = bind (call (Exec tool []) (getExecOutput h tool [])) (\<lambda>_. ret ())"

text \<open>
  \<^verbatim>\<open>core.getInput(name, options)\<close> and \<^verbatim>\<open>core.getBooleanInput(name, options)\<close> of the
  package \<^verbatim>\<open>@actions/core\<close> (the source's comment links the second one), with
  \<^verbatim>\<open>required: false\<close>: both take the NAME of an input. The first answers the trimmed
  value of that input, the empty string when it is not set. The second reads the input
  of that name with the first and answers \<^verbatim>\<open>true\<close> for \<^verbatim>\<open>true | True | TRUE\<close>, \<^verbatim>\<open>false\<close>
  for \<^verbatim>\<open>false | False | FALSE\<close>, and throws a \<^verbatim>\<open>TypeError\<close> for every other value.
\<close>

definition core_getInput :: "host \<Rightarrow> string \<Rightarrow> string" where
  "core_getInput h input_name = trim (action_input h input_name)"

definition core_getBooleanInput :: "host \<Rightarrow> string \<Rightarrow> bool run" where
  "core_getBooleanInput h input_name =
     (if core_getInput h input_name \<in> set [''true'', ''True'', ''TRUE''] then ret True
      else if core_getInput h input_name \<in> set [''false'', ''False'', ''FALSE''] then ret False
      else throw (JsError (''Input does not meet YAML 1.2 Core Schema specification: ''
                            @ input_name)))"

definition getBooleanInput :: "host \<Rightarrow> string \<Rightarrow> bool run" where
  "getBooleanInput h input_name =
     (let val = (if core_getInput h input_name \<in> set [''true'', ''True'', ''TRUE'', ''1'']
                 then ''true'' else ''false'')
      in core_getBooleanInput h val)"

definition getInputs :: "host \<Rightarrow> source_inputs run" where
  "getInputs h =
     (let v = (if toLowerCase (core_getInput h ''version'') = [] then ''stable''
               else toLowerCase (core_getInput h ''version''))
      in bind (getBooleanInput h ''execute'') (\<lambda>e.
         ret \<lparr>inputs_version = v, execute = e\<rparr>))"

definition main :: "host \<Rightarrow> unit run" where
  "main h =
     try_catch
       (bind (getInputs h) (\<lambda>sourceInputs.
        bind (Install h sourceInputs) (\<lambda>tool.
        if execute sourceInputs = True then Execute h (name tool) else ret ())))
       (\<lambda>error. case error of JsError m \<Rightarrow> emit (SetFailed m) | NonError \<Rightarrow> ret ())"

subsection \<open>What the file calls do to the files\<close>

text \<open>
  The packages \<^verbatim>\<open>@actions/tool-cache\<close> and \<^verbatim>\<open>@actions/io\<close> and Node's \<^verbatim>\<open>fs\<close> are not part
  of the source. What their calls do to the files of the runner, as the packages document
  it:

  \<^item> \<^verbatim>\<open>toolCache.downloadTool\<close> writes the download into a new file at the path it answers;
  \<^item> \<^verbatim>\<open>io.mkdirP\<close> creates the directory where nothing is, and leaves what is there;
  \<^item> \<^verbatim>\<open>io.cp\<close> of a file to a path where a directory is copies the file INTO that directory,
    to \<^verbatim>\<open>path.join(dest, path.basename(source))\<close>; to any other path, with \<^verbatim>\<open>force\<close>, it
    writes the copy at that very path. The copy has the mode of its source;
  \<^item> \<^verbatim>\<open>chmodSync\<close> sets the mode of what is at the path, a file or a directory;
  \<^item> \<^verbatim>\<open>io.rmRF\<close> removes what is at the path, and everything below it.

  A call that the host answers with an error changes nothing. A file is known by the
  address it was downloaded from. Not recorded: the directories above a path, the copy
  of anything other than a file (the download is a file), the files that a cache hit
  restores, and what the commands that are run write.
\<close>

datatype node =
  Directory nat  \<comment> \<open>its mode\<close>
  | File string nat  \<comment> \<open>the address its content was downloaded from, and its mode\<close>

type_synonym file_system = "string \<Rightarrow> node option"

definition basename :: "string \<Rightarrow> string" where
  \<comment> \<open>\<^verbatim>\<open>path.basename\<close> on POSIX: the text after the last slash, slashes at the end set aside\<close>
  "basename p = rev (takeWhile (\<lambda>c. c \<noteq> CHR ''/'') (dropWhile (\<lambda>c. c = CHR ''/'') (rev p)))"

definition below :: "string \<Rightarrow> string \<Rightarrow> bool" where
  \<comment> \<open>\<open>q\<close> is a path inside the directory \<open>p\<close>\<close>
  "below p q = (take (length p + 1) q = p @ ''/'')"

definition file_call :: "host \<Rightarrow> nat \<Rightarrow> nat \<Rightarrow> file_system \<Rightarrow> event \<Rightarrow> file_system" where
  \<comment> \<open>\<open>file_mode\<close> and \<open>directory_mode\<close>: the modes that the runner gives to a new file and to a
      new directory (\<^verbatim>\<open>0o666\<close> and \<^verbatim>\<open>0o777\<close> without the bits of its \<^verbatim>\<open>umask\<close>)\<close>
  "file_call h file_mode directory_mode fs ev =
     (case ev of
        Download address dest \<Rightarrow>
          (case tc_downloadTool h address dest of
             Inr p \<Rightarrow> fs(p \<mapsto> File address file_mode)
           | Inl e \<Rightarrow> fs)
      | MkdirP p \<Rightarrow>
          (if mkdirP h p = None \<and> fs p = None then fs(p \<mapsto> Directory directory_mode) else fs)
      | Cp source dest \<Rightarrow>
          (if cp h source dest = None
           then (case fs source of
                   Some (File content m) \<Rightarrow>
                     (case fs dest of
                        Some (Directory dm) \<Rightarrow> fs(path_join h [dest, basename source] \<mapsto> File content m)
                      | _ \<Rightarrow> fs(dest \<mapsto> File content m))
                 | _ \<Rightarrow> fs)
           else fs)
      | Chmod p m \<Rightarrow>
          (if chmodSync h p m = None
           then (case fs p of
                   Some (File content m') \<Rightarrow> fs(p \<mapsto> File content m)
                 | Some (Directory m') \<Rightarrow> fs(p \<mapsto> Directory m)
                 | None \<Rightarrow> fs)
           else fs)
      | RmRF p \<Rightarrow>
          (if rmRF h p = None then (\<lambda>q. if q = p \<or> below p q then None else fs q) else fs)
      | _ \<Rightarrow> fs)"

definition files_after :: "host \<Rightarrow> nat \<Rightarrow> nat \<Rightarrow> event list \<Rightarrow> file_system \<Rightarrow> file_system" where
  \<comment> \<open>the files after the calls of a run, from the files before it\<close>
  "files_after h file_mode directory_mode es fs = foldl (file_call h file_mode directory_mode) fs es"

definition mode_0644 :: nat where
  \<comment> \<open>the mode of a new file under the \<^verbatim>\<open>umask\<close> \<^verbatim>\<open>022\<close>\<close>
  "mode_0644 = 6 * 8 ^ 2 + 4 * 8 + 4"

definition no_files :: file_system where
  "no_files = (\<lambda>p. None)"

subsection \<open>Names for the proofs\<close>

text \<open>
  Classes of events, and names for the parts of \<open>Install\<close>: the marker and the path of
  lines 24 and 26, the block of lines 34 to 38 (\<open>install_fresh\<close>), lines 41 to 45
  (\<open>install_finish\<close>), lines 32 to 45 (\<open>install_after_restore\<close>) and lines 24 to 45
  (\<open>install_resolved\<close>). \<open>Install_eq\<close> below shows that \<open>Install\<close> is made of them.
\<close>

fun is_download :: "event \<Rightarrow> bool" where
  "is_download (Download u d) = True"
| "is_download _ = False"

fun is_restore :: "event \<Rightarrow> bool" where
  "is_restore (RestoreCache p k) = True"
| "is_restore _ = False"

fun is_save :: "event \<Rightarrow> bool" where
  "is_save (SaveCache p k) = True"
| "is_save _ = False"

fun is_chmod :: "event \<Rightarrow> bool" where
  "is_chmod (Chmod p m) = True"
| "is_chmod _ = False"

fun is_setFailed :: "event \<Rightarrow> bool" where
  "is_setFailed (SetFailed m) = True"
| "is_setFailed _ = False"

definition quiet :: "(event \<Rightarrow> bool) \<Rightarrow> 'a run \<Rightarrow> bool" where
  "quiet P m = (\<not> list_ex P (snd m))"

definition versionMarker_of :: "release_entry \<Rightarrow> string" where
  "versionMarker_of rm = template (buildId rm) @ ''-'' @ template (version rm)"

definition pathToInstall_of :: "host \<Rightarrow> release_entry \<Rightarrow> string" where
  "pathToInstall_of h rm = path_join h [TEMP_DIRECTORY h, TOOL_NAME @ ''-'' @ versionMarker_of rm]"

definition install_fresh :: "host \<Rightarrow> release_entry \<Rightarrow> string \<Rightarrow> string \<Rightarrow> string option run" where
  "install_fresh h releaseMetadata pathToInstall cacheKey =
     bind (getDownloadUrl h releaseMetadata) (\<lambda>found_url.
     bind (downloadTool h (fst found_url) (snd found_url)) (\<lambda>downloadPath.
     bind (extractPackage h downloadPath pathToInstall (snd found_url)) (\<lambda>_.
     bind (trySaveToCache h [pathToInstall] cacheKey) (\<lambda>_.
     ret (Some (href (fst found_url)))))))"

definition install_finish :: "host \<Rightarrow> release_entry \<Rightarrow> string \<Rightarrow> bool \<Rightarrow> string option \<Rightarrow> install_result run" where
  "install_finish h releaseMetadata pathToInstall restored downloadUrlHref =
     bind (emit (AddPath (toPlatformPath h pathToInstall))) (\<lambda>_.
     bind (getToolVersion h TOOL_NAME TOOL_VERSION_ARG) (\<lambda>toolVersion.
     bind (emit (Debug toolVersion)) (\<lambda>_.
     ret \<lparr>name = TOOL_NAME, result_version = version releaseMetadata,
          path = pathToInstall, restoredFromCache = restored,
          downloadUrl = downloadUrlHref\<rparr>)))"

definition install_after_restore :: "host \<Rightarrow> release_entry \<Rightarrow> string \<Rightarrow> bool \<Rightarrow> install_result run" where
  "install_after_restore h rm cacheKey restored =
     bind (if restored = False then install_fresh h rm (pathToInstall_of h rm) cacheKey else ret None)
       (install_finish h rm (pathToInstall_of h rm) restored)"

definition install_resolved :: "host \<Rightarrow> release_entry \<Rightarrow> install_result run" where
  "install_resolved h rm =
     bind (emit (Info (''Version to install: '' @ versionMarker_of rm
                        @ '' (target directory: '' @ pathToInstall_of h rm @ '')''))) (\<lambda>_.
     bind (getCacheKey h (versionMarker_of rm)) (\<lambda>cacheKey.
     bind (tryRestoreFromCache h [pathToInstall_of h rm] cacheKey) (\<lambda>restored.
     install_after_restore h rm cacheKey (fst restored))))"

definition was_hit :: "host \<Rightarrow> string list \<Rightarrow> string \<Rightarrow> bool" where
  "was_hit h p k = (case restoreCache h p k of Inr (Some hk) \<Rightarrow> True | _ \<Rightarrow> False)"

text \<open>
  The file names that \<^verbatim>\<open>path.join\<close> is assumed to produce: normalising twice changes
  nothing, and no path is the empty string (Node answers \<^verbatim>\<open>'.'\<close> for it).
\<close>

definition normalizes :: "host \<Rightarrow> bool" where
  "normalizes h = (\<forall>p. path_normalize h (path_normalize h p) = path_normalize h p
                      \<and> path_normalize h p \<noteq> [])"

text \<open>
  The cache key in the words of the specification, and the inputs it names: the version
  marker, the operating system, the architecture and, on Linux, the codename. The tool
  name is the constant \<open>TOOL_NAME\<close>.
\<close>

definition cache_key_format :: "string \<Rightarrow> string \<Rightarrow> string \<Rightarrow> string \<Rightarrow> string option \<Rightarrow> string" where
  "cache_key_format toolName versionMarker os cpu codename =
     toolName @ ''-'' @ versionMarker @ ''-'' @ os @ ''-'' @ cpu
     @ (case codename of None \<Rightarrow> [] | Some c \<Rightarrow> ''-'' @ c) @ ''-cache''"

definition codename_of :: "host \<Rightarrow> string option" where
  "codename_of h =
     (if platform h = ''linux''
      then (case getExecOutput h ''lsb_release'' [''-cs''] of
              Inl e \<Rightarrow> None
            | Inr out \<Rightarrow> Some (trim out))
      else None)"

definition key_inputs :: "host \<Rightarrow> string \<Rightarrow> string option list" where
  "key_inputs h versionMarker =
     [Some versionMarker, Some (platform h), Some (arch h), codename_of h]"

definition differing :: "'a list \<Rightarrow> 'a list \<Rightarrow> nat" where
  \<comment> \<open>in how many places two lists of one length differ\<close>
  "differing xs ys = length (filter (\<lambda>xy. fst xy \<noteq> snd xy) (zip xs ys))"

subsection \<open>Concrete hosts\<close>

definition entry0 :: release_entry where
  "entry0 = \<lparr>buildId = Some ''1.0.020761'', version = Some ''stable'',
     files = [(''linux-x64'', ''https://example.org/linux/StaticSitesClient''),
              (''win-x64'', ''https://example.org/windows/StaticSitesClient.exe'')]\<rparr>"

definition dated_entry :: release_entry where
  \<comment> \<open>a release whose channel is named by a date\<close>
  "dated_entry = \<lparr>buildId = Some ''1.0.021731'', version = Some ''2023-01-01'',
     files = [(''linux-x64'', ''https://example.org/linux/StaticSitesClient'')]\<rparr>"

definition slash_entry :: release_entry where
  \<comment> \<open>a release whose download address ends with a slash\<close>
  "slash_entry = \<lparr>buildId = Some ''1.0.020761'', version = Some ''stable'',
     files = [(''linux-x64'', ''https://example.org/linux/'')]\<rparr>"

definition runner :: host where
  \<comment> \<open>a Linux x64 runner with an empty cache; the cache answers the id 7 to a save, so
      \<open>exponent_notation\<close> is never asked\<close>
  "runner = \<lparr>platform = ''linux'', arch = ''x64'', TEMP_DIRECTORY = ''/tmp'',
     action_input = (\<lambda>n. if n = ''execute'' then ''true'' else []),
     path_normalize = (\<lambda>p. if p = [] then ''.'' else p), toPlatformPath = (\<lambda>p. p),
     uuid = ''u1'',
     new_URL = (\<lambda>s. if s = ''https://example.org/linux/StaticSitesClient''
                      then Inr \<lparr>href = s, pathname = ''/linux/StaticSitesClient''\<rparr>
                      else if s = ''https://example.org/linux/''
                      then Inr \<lparr>href = s, pathname = ''/linux/''\<rparr>
                      else Inl (JsError ''Invalid URL'')),
     fetch_json = (\<lambda>_. Inr (Array [Some entry0])),
     getExecOutput = (\<lambda>c a. if c = ''lsb_release'' then Inr (''focal'' @ [char_of (10::nat)])
                            else Inr ''1.0.020761''),
     restoreCache = (\<lambda>_ _. Inr None),
     saveCache = (\<lambda>_ _. Inr 7),
     tc_downloadTool = (\<lambda>u d. Inr d),
     mkdirP = (\<lambda>_. None), cp = (\<lambda>_ _. None), chmodSync = (\<lambda>_ _. None),
     rmRF = (\<lambda>_. None), exponent_notation = (\<lambda>_. ''1e+21'')\<rparr>"

definition inputs0 :: source_inputs where
  "inputs0 = \<lparr>inputs_version = ''stable'', execute = False\<rparr>"

definition nightly_inputs :: source_inputs where
  "nightly_inputs = \<lparr>inputs_version = ''nightly'', execute = False\<rparr>"

definition arm_runner :: host where
  \<comment> \<open>the same runner on arm64\<close>
  "arm_runner = runner\<lparr>arch := ''arm64''\<rparr>"

definition hit_runner :: host where
  \<comment> \<open>the cache holding the tool\<close>
  "hit_runner = runner\<lparr>restoreCache := (\<lambda>_ k. Inr (Some k))\<rparr>"

definition arm_hit_runner :: host where
  \<comment> \<open>on arm64, the cache holding the tool\<close>
  "arm_hit_runner = runner\<lparr>arch := ''arm64'', restoreCache := (\<lambda>_ k. Inr (Some k))\<rparr>"

definition bsd_hit_runner :: host where
  \<comment> \<open>an operating system and an architecture that \<open>getDownloadUrl\<close> refuses, the cache holding the tool\<close>
  "bsd_hit_runner = runner\<lparr>platform := ''freebsd'', arch := ''arm64'',
     restoreCache := (\<lambda>_ k. Inr (Some k))\<rparr>"

definition broken_tool_runner :: host where
  \<comment> \<open>on arm64, the cache holding the tool, which does not start there\<close>
  "broken_tool_runner = runner\<lparr>arch := ''arm64'', restoreCache := (\<lambda>_ k. Inr (Some k)),
     getExecOutput := (\<lambda>c a. if c = ''lsb_release'' then Inr ''focal''
                             else Inl (JsError ''Exec format error''))\<rparr>"

definition throwing_cache_runner :: host where
  \<comment> \<open>the cache service failing on restore\<close>
  "throwing_cache_runner =
     runner\<lparr>restoreCache := (\<lambda>_ _. Inl (JsError ''Cache service responded with 503''))\<rparr>"

definition failing_save_runner :: host where
  \<comment> \<open>the cache service failing on save\<close>
  "failing_save_runner =
     runner\<lparr>saveCache := (\<lambda>_ _. Inl (JsError ''Cache service responded with 429''))\<rparr>"

definition slash_runner :: host where
  "slash_runner = runner\<lparr>fetch_json := (\<lambda>_. Inr (Array [Some slash_entry]))\<rparr>"

definition dated_runner :: host where
  "dated_runner = runner\<lparr>fetch_json := (\<lambda>_. Inr (Array [Some entry0, Some dated_entry]))\<rparr>"

definition no_input_runner :: host where
  \<comment> \<open>no input of the action is set\<close>
  "no_input_runner = runner\<lparr>action_input := (\<lambda>_. [])\<rparr>"

section \<open>Lemmas\<close>

subsection \<open>Runs\<close>

lemma prepend_pair [simp]: "prepend es (r, es') = (r, es @ es')"
  by (simp add: prepend_def)

lemma fst_prepend [simp]: "fst (prepend es m) = fst m"
  by (simp add: prepend_def)

lemma snd_prepend [simp]: "snd (prepend es m) = es @ snd m"
  by (simp add: prepend_def)

lemma prepend_Nil [simp]: "prepend [] m = m"
  by (simp add: prepend_def)

lemma prepend_prepend [simp]: "prepend es (prepend es' m) = prepend (es @ es') m"
  by (simp add: prepend_def)

lemma bind_Returned [simp]: "bind (Returned x, es) f = prepend es (f x)"
  by (simp add: bind_def)

lemma bind_Thrown [simp]: "bind (Thrown e, es) f = (Thrown e, es)"
  by (simp add: bind_def)

lemma bind_Exited [simp]: "bind (Exited, es) f = (Exited, es)"
  by (simp add: bind_def)

lemma bind_ret [simp]: "bind (ret x) f = f x"
  by (simp add: ret_def)

lemma bind_emit [simp]: "bind (emit ev) f = prepend [ev] (f ())"
  by (simp add: emit_def)

lemma bind_prepend [simp]: "bind (prepend es m) f = prepend es (bind m f)"
  by (cases m) (auto simp: bind_def prepend_def split: outcome.splits)

lemma try_catch_Returned [simp]: "try_catch (Returned x, es) h = (Returned x, es)"
  by (simp add: try_catch_def)

lemma try_catch_Thrown [simp]: "try_catch (Thrown e, es) h = prepend es (h e)"
  by (simp add: try_catch_def)

lemma try_catch_Exited [simp]: "try_catch (Exited, es) h = (Exited, es)"
  by (simp add: try_catch_def)

lemma try_catch_prepend [simp]: "try_catch (prepend es m) h = prepend es (try_catch m h)"
  by (cases m) (auto simp: try_catch_def prepend_def split: outcome.splits)

lemma call_Inr [simp]: "call ev (Inr x) = (Returned x, [ev])"
  by (simp add: call_def)

lemma call_Inl [simp]: "call ev (Inl e) = (Thrown e, [ev])"
  by (simp add: call_def)

lemma call_unit_None [simp]: "call_unit ev None = (Returned (), [ev])"
  by (simp add: call_unit_def)

lemma call_unit_Some [simp]: "call_unit ev (Some e) = (Thrown e, [ev])"
  by (simp add: call_unit_def)

lemma tryRestoreFromCache_cases:
  "tryRestoreFromCache h p k =
     (case restoreCache h p k of
        Inr (Some hk) \<Rightarrow>
          (Returned (True, Some hk),
           [RestoreCache p k, Info (TOOL_NAME @ '' restored from cache: '' @ hk)])
      | Inr None \<Rightarrow>
          (Returned (False, None),
           [RestoreCache p k, Warning (''Cache for '' @ TOOL_NAME @ '' not found'')])
      | Inl (JsError m) \<Rightarrow> (Returned (False, None), [RestoreCache p k, Warning m])
      | Inl NonError \<Rightarrow> (Returned (False, None), [RestoreCache p k]))"
  by (simp add: tryRestoreFromCache_def ret_def warn_if_error_def emit_def
      split: sum.splits option.splits thrown.splits)

lemma extractPackage_cases:
  "extractPackage h dp pti f =
    (let dest = path_join h [pti, f] in
     case mkdirP h pti of Some e \<Rightarrow> (Thrown e, [MkdirP pti]) | None \<Rightarrow>
     (case cp h dp dest of Some e \<Rightarrow> (Thrown e, [MkdirP pti, Cp dp dest]) | None \<Rightarrow>
     (case chmodSync h dest mode_0755 of Some e \<Rightarrow> (Thrown e, [MkdirP pti, Cp dp dest, Chmod dest mode_0755]) | None \<Rightarrow>
     (case rmRF h dp of Some e \<Rightarrow> (Thrown e, [MkdirP pti, Cp dp dest, Chmod dest mode_0755, RmRF dp]) | None \<Rightarrow>
       (Returned (), [MkdirP pti, Cp dp dest, Chmod dest mode_0755, RmRF dp, Info (''Extracted '' @ f @ '' to '' @ pti)])))))"
  by (simp add: extractPackage_def Let_def emit_def split: option.splits)

lemma Install_eq:
  "Install h i =
     bind (getReleaseMetadata h (inputs_version i)) (\<lambda>found.
       case found of
         None \<Rightarrow> throw (JsError ''Cannot read properties of undefined (reading buildId)'')
       | Some rm \<Rightarrow> install_resolved h rm)"
  unfolding Install_def install_resolved_def install_after_restore_def install_fresh_def
      install_finish_def versionMarker_of_def pathToInstall_of_def Let_def
  by (rule refl)

lemma getReleaseMetadata_cases:
  "getReleaseMetadata h v =
     (case fetch_json h TOOL_RELEASE_METADATA of
        Inl e \<Rightarrow> (Thrown e, [Info (''Fetching release metadata for version: '' @ v), Fetch TOOL_RELEASE_METADATA])
      | Inr (Array (vd # vds)) \<Rightarrow>
          (Returned (find_entry (if version_pattern_test v then buildId else version) v (vd # vds)),
           [Info (''Fetching release metadata for version: '' @ v), Fetch TOOL_RELEASE_METADATA])
      | Inr _ \<Rightarrow>
          (Exited, [Info (''Fetching release metadata for version: '' @ v), Fetch TOOL_RELEASE_METADATA,
                    SetFailed (''Could not fetch release metadata from '' @ TOOL_RELEASE_METADATA)]))"
  by (simp add: getReleaseMetadata_def ret_def process_exit_def emit_def
      split: sum.splits metadata_document.splits list.splits)

lemma getCacheKey_cases:
  "getCacheKey h v =
     (if platform h = ''linux''
      then (case getExecOutput h ''lsb_release'' [''-cs''] of
              Inl e \<Rightarrow> (Thrown e, [Exec ''lsb_release'' [''-cs'']])
            | Inr out \<Rightarrow>
                (Returned (TOOL_NAME @ ''-'' @ v @ ''-'' @ platform h @ ''-'' @ arch h @ ''-'' @ trim out @ ''-cache''),
                 [Exec ''lsb_release'' [''-cs''],
                  Info (''Cache key: '' @ TOOL_NAME @ ''-'' @ v @ ''-'' @ platform h @ ''-'' @ arch h @ ''-'' @ trim out @ ''-cache'')]))
      else (Returned (TOOL_NAME @ ''-'' @ v @ ''-'' @ platform h @ ''-'' @ arch h @ ''-cache''),
            [Info (''Cache key: '' @ TOOL_NAME @ ''-'' @ v @ ''-'' @ platform h @ ''-'' @ arch h @ ''-cache'')]))"
  by (simp add: getCacheKey_def getLsbRelease_def ret_def emit_def split: sum.splits)

lemma install_finish_cases:
  "install_finish h rm pti restored d =
     (case getExecOutput h TOOL_NAME TOOL_VERSION_ARG of
        Inl e \<Rightarrow> (Thrown e, [AddPath (toPlatformPath h pti), Exec TOOL_NAME TOOL_VERSION_ARG])
      | Inr out \<Rightarrow>
          (Returned \<lparr>name = TOOL_NAME, result_version = version rm, path = pti,
                     restoredFromCache = restored, downloadUrl = d\<rparr>,
           [AddPath (toPlatformPath h pti), Exec TOOL_NAME TOOL_VERSION_ARG, Debug (trim out)]))"
  by (simp add: install_finish_def getToolVersion_def ret_def emit_def split: sum.splits)

lemma downloadTool_cases:
  "downloadTool h u f =
     (case tc_downloadTool h (href u) (path_join h [TEMP_DIRECTORY h, uuid h, f]) of
        Inr dp \<Rightarrow> (Returned dp, [Download (href u) (path_join h [TEMP_DIRECTORY h, uuid h, f]),
                                  Info (''Downloaded from '' @ href u @ '' to '' @ dp)])
      | Inl (JsError m) \<Rightarrow>
          (Exited, [Download (href u) (path_join h [TEMP_DIRECTORY h, uuid h, f]),
                    SetFailed (''Could not download '' @ TOOL_NAME @ '' from '' @ href u @ '', error: '' @ m)])
      | Inl NonError \<Rightarrow> (Exited, [Download (href u) (path_join h [TEMP_DIRECTORY h, uuid h, f])]))"
  by (simp add: downloadTool_def ret_def emit_def process_exit_def split: sum.splits thrown.splits)

lemma trySaveToCache_cases:
  "trySaveToCache h p k =
     (case saveCache h p k of
        Inr c \<Rightarrow> (Returned c, [SaveCache p k,
                     Info (TOOL_NAME @ '' saved to cache (cacheId: '' @ number_string h c @ '', cacheKey: '' @ k @ '')'')])
      | Inl (JsError m) \<Rightarrow> (Returned 0, [SaveCache p k, Warning m])
      | Inl NonError \<Rightarrow> (Returned 0, [SaveCache p k]))"
  by (simp add: trySaveToCache_def ret_def emit_def warn_if_error_def split: sum.splits thrown.splits)

lemma getDownloadUrl_cases:
  "getDownloadUrl h rm =
     (if arch h \<noteq> ''x64'' then (Exited, [SetFailed (''Unsupported architecture: '' @ arch h)])
      else if platform h \<noteq> ''win32'' \<and> platform h \<noteq> ''darwin'' \<and> platform h \<noteq> ''linux''
      then (Exited, [SetFailed (''Unsupported platform: '' @ platform h)])
      else (case map_of (files rm)
                   ((if platform h = ''win32'' then ''win'' else if platform h = ''darwin'' then ''osx'' else ''linux'')
                    @ ''-'' @ arch h) of
              None \<Rightarrow> (Thrown (JsError ''Cannot read properties of undefined (reading url)''), [])
            | Some s \<Rightarrow>
               (case new_URL h s of
                  Inl e \<Rightarrow> (Thrown e, [])
                | Inr u \<Rightarrow> (Returned (u, filename_of (pathname u)), []))))"
  by (simp add: getDownloadUrl_def ret_def emit_def process_exit_def throw_def
      split: sum.splits option.splits)

lemma quiet_pair [simp]: "quiet P (r, es) = (\<not> list_ex P es)"
  by (simp add: quiet_def)

lemma quiet_prepend [simp]: "quiet P (prepend es m) = (\<not> list_ex P es \<and> quiet P m)"
  by (simp add: quiet_def)

lemma quiet_ret [simp]: "quiet P (ret x)"
  by (simp add: ret_def)

lemma quiet_bind:
  assumes "quiet P m" and "\<And>x. fst m = Returned x \<Longrightarrow> quiet P (f x)"
  shows "quiet P (bind m f)"
  using assms by (cases m) (auto simp: bind_def quiet_def split: outcome.splits)

lemma quiet_getReleaseMetadata:
  "quiet is_restore (getReleaseMetadata h v)" "quiet is_download (getReleaseMetadata h v)"
  "quiet is_save (getReleaseMetadata h v)" "quiet is_chmod (getReleaseMetadata h v)"
  by (simp_all add: getReleaseMetadata_cases split: sum.splits metadata_document.splits list.splits)

lemma quiet_getCacheKey:
  "quiet is_restore (getCacheKey h v)" "quiet is_download (getCacheKey h v)"
  "quiet is_save (getCacheKey h v)" "quiet is_chmod (getCacheKey h v)" "quiet is_setFailed (getCacheKey h v)"
  by (simp_all add: getCacheKey_cases split: sum.splits)

lemma quiet_tryRestoreFromCache:
  "quiet is_download (tryRestoreFromCache h p k)"
  "quiet is_save (tryRestoreFromCache h p k)" "quiet is_chmod (tryRestoreFromCache h p k)"
  "quiet is_setFailed (tryRestoreFromCache h p k)"
  by (simp_all add: tryRestoreFromCache_cases split: sum.splits option.splits thrown.splits)

lemma quiet_install_finish:
  "quiet is_restore (install_finish h rm pti r d)" "quiet is_download (install_finish h rm pti r d)"
  "quiet is_save (install_finish h rm pti r d)" "quiet is_chmod (install_finish h rm pti r d)"
  "quiet is_setFailed (install_finish h rm pti r d)"
  by (simp_all add: install_finish_cases split: sum.splits)

lemma quiet_getDownloadUrl:
  "quiet is_restore (getDownloadUrl h rm)" "quiet is_download (getDownloadUrl h rm)"
  "quiet is_save (getDownloadUrl h rm)" "quiet is_chmod (getDownloadUrl h rm)"
  by (simp_all add: getDownloadUrl_cases split: sum.splits option.splits)

lemma quiet_downloadTool:
  "quiet is_restore (downloadTool h u f)"
  "quiet is_save (downloadTool h u f)" "quiet is_chmod (downloadTool h u f)"
  by (simp_all add: downloadTool_cases split: sum.splits thrown.splits)

lemma quiet_extractPackage:
  "quiet is_restore (extractPackage h dp pti f)" "quiet is_download (extractPackage h dp pti f)"
  "quiet is_save (extractPackage h dp pti f)" "quiet is_setFailed (extractPackage h dp pti f)"
  by (simp_all add: extractPackage_cases Let_def split: option.splits)

lemma quiet_trySaveToCache:
  "quiet is_restore (trySaveToCache h p k)" "quiet is_download (trySaveToCache h p k)"
  "quiet is_chmod (trySaveToCache h p k)" "quiet is_setFailed (trySaveToCache h p k)"
  by (simp_all add: trySaveToCache_cases split: sum.splits thrown.splits)

lemma quiet_install_fresh_restore: "quiet is_restore (install_fresh h rm pti key)"
  unfolding install_fresh_def
  by (intro quiet_bind quiet_getDownloadUrl quiet_downloadTool quiet_extractPackage
      quiet_trySaveToCache quiet_ret)

lemma quiet_install_after_restore: "quiet is_restore (install_after_restore h rm key r)"
  unfolding install_after_restore_def
  by (intro quiet_bind quiet_install_finish) (simp add: quiet_install_fresh_restore)

lemma list_ex_restore: "RestoreCache p k \<in> set es \<Longrightarrow> list_ex is_restore es"
  unfolding list_ex_iff by (rule bexI [of _ "RestoreCache p k"]) simp_all

lemma install_resolved_eq:
  "install_resolved h rm =
     prepend [Info (''Version to install: '' @ versionMarker_of rm
                     @ '' (target directory: '' @ pathToInstall_of h rm @ '')'')]
       (bind (getCacheKey h (versionMarker_of rm)) (\<lambda>cacheKey.
        bind (tryRestoreFromCache h [pathToInstall_of h rm] cacheKey) (\<lambda>restored.
        install_after_restore h rm cacheKey (fst restored))))"
  by (simp add: install_resolved_def)

lemma fst_tryRestoreFromCache:
  "\<exists>hk. fst (tryRestoreFromCache h p k) = Returned (was_hit h p k, hk)"
  by (simp add: tryRestoreFromCache_cases was_hit_def split: sum.splits option.splits thrown.splits)

lemma hd_tryRestoreFromCache:
  "\<exists>es. snd (tryRestoreFromCache h p k) = RestoreCache p k # es \<and> \<not> list_ex is_restore es"
  by (simp add: tryRestoreFromCache_cases split: sum.splits option.splits thrown.splits)

lemma was_hit_iff: "was_hit h p k = (\<exists>hk. restoreCache h p k = Inr (Some hk))"
  by (simp add: was_hit_def split: sum.splits option.splits)

lemma install_after_restore_hit:
  "install_after_restore h rm k True = install_finish h rm (pathToInstall_of h rm) True None"
  by (simp add: install_after_restore_def)

lemma install_after_restore_miss:
  "install_after_restore h rm k False =
     bind (install_fresh h rm (pathToInstall_of h rm) k)
       (install_finish h rm (pathToInstall_of h rm) False)"
  by (simp add: install_after_restore_def)

lemma install_fresh_arch:
  "arch h \<noteq> ''x64'' \<Longrightarrow>
   install_fresh h rm pti key = (Exited, [SetFailed (''Unsupported architecture: '' @ arch h)])"
  by (simp add: install_fresh_def getDownloadUrl_cases)

lemma quiet_setFailed_getReleaseMetadata:
  "fst (getReleaseMetadata h v) = Returned x \<Longrightarrow> quiet is_setFailed (getReleaseMetadata h v)"
  by (simp add: getReleaseMetadata_cases split: sum.splits metadata_document.splits list.splits)

lemma quiet_download_unsupported:
  assumes "arch h \<noteq> ''x64''"
  shows "quiet is_download (Install h i)"
proof -
  have a: "quiet is_download (install_after_restore h rm k r)" for rm k r
    using assms
    by (cases r) (simp_all add: install_after_restore_hit install_after_restore_miss
        install_fresh_arch quiet_install_finish)
  have b: "quiet is_download (install_resolved h rm)" for rm
    unfolding install_resolved_eq quiet_prepend
    by (intro conjI quiet_bind quiet_getCacheKey quiet_tryRestoreFromCache a) simp
  show ?thesis
    unfolding Install_eq
    by (intro quiet_bind quiet_getReleaseMetadata) (simp add: b throw_def split: option.splits)
qed

subsection \<open>The shape of a run of Install\<close>

lemma pair_of_fst: "fst m = r \<Longrightarrow> m = (r, snd m)"
  by (cases m) simp

lemma fst_bind_Returned:
  assumes "fst (bind m f) = Returned y"
  obtains x where "fst m = Returned x" "fst (f x) = Returned y"
  using assms by (cases m) (auto simp: bind_def split: outcome.splits)

lemma fst_bind_cong:
  assumes "fst m = fst m'" and "\<And>x. fst (f x) = fst (g x)"
  shows "fst (bind m f) = fst (bind m' g)"
  using assms by (cases m; cases m') (auto simp: bind_def split: outcome.splits)

lemma fst_bind_ignore: "fst m = Returned c \<Longrightarrow> fst (bind m (\<lambda>_. n)) = fst n"
  by (cases m) (auto simp: bind_def)

lemma snd_bind_prefix: "\<exists>es. snd (bind m f) = snd m @ es"
  by (cases m) (auto simp: bind_def split: outcome.splits)

lemma Install_shape:
  obtains (stopped) "\<forall>res. fst (Install h i) \<noteq> Returned res"
      "\<not> list_ex is_restore (snd (Install h i))" "\<not> list_ex is_save (snd (Install h i))"
  | (reached) rm key pre where
      "getReleaseMetadata h (inputs_version i) = (Returned (Some rm), snd (getReleaseMetadata h (inputs_version i)))"
      "getCacheKey h (versionMarker_of rm) = (Returned key, snd (getCacheKey h (versionMarker_of rm)))"
      "pre = snd (getReleaseMetadata h (inputs_version i))
             @ Info (''Version to install: '' @ versionMarker_of rm
                      @ '' (target directory: '' @ pathToInstall_of h rm @ '')'')
             # snd (getCacheKey h (versionMarker_of rm))"
      "Install h i =
         prepend (pre @ snd (tryRestoreFromCache h [pathToInstall_of h rm] key))
           (install_after_restore h rm key (was_hit h [pathToInstall_of h rm] key))"
      "\<not> list_ex is_restore pre" "\<not> list_ex is_download pre" "\<not> list_ex is_save pre"
      "\<not> list_ex is_chmod pre" "\<not> list_ex is_setFailed pre"
proof -
  obtain r0 es0 where g: "getReleaseMetadata h (inputs_version i) = (r0, es0)"
    by fastforce
  have q0: "\<not> list_ex is_restore es0" "\<not> list_ex is_download es0" "\<not> list_ex is_save es0"
      "\<not> list_ex is_chmod es0"
    using quiet_getReleaseMetadata [of h "inputs_version i"] g by simp_all
  show thesis
  proof (cases r0)
    case Thrown
    with g q0 show thesis by (intro stopped) (simp_all add: Install_eq)
  next
    case Exited
    with g q0 show thesis by (intro stopped) (simp_all add: Install_eq)
  next
    case (Returned found)
    show thesis
    proof (cases found)
      case None
      with Returned g q0 show thesis by (intro stopped) (simp_all add: Install_eq throw_def)
    next
      case (Some rm)
      obtain r1 es1 where c: "getCacheKey h (versionMarker_of rm) = (r1, es1)"
        by fastforce
      have q1: "\<not> list_ex is_restore es1" "\<not> list_ex is_download es1" "\<not> list_ex is_save es1"
          "\<not> list_ex is_chmod es1" "\<not> list_ex is_setFailed es1"
        using quiet_getCacheKey [of h "versionMarker_of rm"] c by simp_all
      have q0f: "\<not> list_ex is_setFailed es0"
        using quiet_setFailed_getReleaseMetadata [of h "inputs_version i" found] g Returned
        by simp
      have I: "Install h i =
          prepend (es0 @ [Info (''Version to install: '' @ versionMarker_of rm
                         @ '' (target directory: '' @ pathToInstall_of h rm @ '')'')])
           (bind (r1, es1) (\<lambda>cacheKey.
              bind (tryRestoreFromCache h [pathToInstall_of h rm] cacheKey) (\<lambda>restored.
              install_after_restore h rm cacheKey (fst restored))))"
        using g Returned Some c by (simp add: Install_eq install_resolved_eq)
      show thesis
      proof (cases r1)
        case Thrown
        with I q0 q1 show thesis by (intro stopped) simp_all
      next
        case Exited
        with I q0 q1 show thesis by (intro stopped) simp_all
      next
        case (Returned key)
        obtain hk where t: "fst (tryRestoreFromCache h [pathToInstall_of h rm] key)
            = Returned (was_hit h [pathToInstall_of h rm] key, hk)"
          using fst_tryRestoreFromCache by blast
        define es2 where "es2 = snd (tryRestoreFromCache h [pathToInstall_of h rm] key)"
        have T: "tryRestoreFromCache h [pathToInstall_of h rm] key
            = (Returned (was_hit h [pathToInstall_of h rm] key, hk), es2)"
          unfolding es2_def by (rule pair_of_fst [OF t])
        have I2: "Install h i =
          prepend ((es0 @ Info (''Version to install: '' @ versionMarker_of rm
                         @ '' (target directory: '' @ pathToInstall_of h rm @ '')'')
                   # es1) @ es2)
           (install_after_restore h rm key (was_hit h [pathToInstall_of h rm] key))"
          using I Returned T by simp
        show thesis
        proof (rule reached [of rm key])
          show "getReleaseMetadata h (inputs_version i)
              = (Returned (Some rm), snd (getReleaseMetadata h (inputs_version i)))"
            using g \<open>r0 = Returned found\<close> Some by simp
          show "getCacheKey h (versionMarker_of rm)
              = (Returned key, snd (getCacheKey h (versionMarker_of rm)))"
            using c Returned by simp
          show "es0 @ Info (''Version to install: '' @ versionMarker_of rm
                         @ '' (target directory: '' @ pathToInstall_of h rm @ '')'') # es1
              = snd (getReleaseMetadata h (inputs_version i))
                @ Info (''Version to install: '' @ versionMarker_of rm
                      @ '' (target directory: '' @ pathToInstall_of h rm @ '')'')
                # snd (getCacheKey h (versionMarker_of rm))"
            using g c by simp
          show "Install h i =
             prepend ((es0 @ Info (''Version to install: '' @ versionMarker_of rm
                         @ '' (target directory: '' @ pathToInstall_of h rm @ '')'') # es1)
                      @ snd (tryRestoreFromCache h [pathToInstall_of h rm] key))
               (install_after_restore h rm key (was_hit h [pathToInstall_of h rm] key))"
            using I2 by (simp add: es2_def)
        qed (use q0 q1 q0f in simp_all)
      qed
    qed
  qed
qed

lemma restore_reached:
  assumes "RestoreCache p k \<in> set (snd (Install h i))"
  obtains rm pre where
    "getReleaseMetadata h (inputs_version i) = (Returned (Some rm), snd (getReleaseMetadata h (inputs_version i)))"
    "getCacheKey h (versionMarker_of rm) = (Returned k, snd (getCacheKey h (versionMarker_of rm)))"
    "p = [pathToInstall_of h rm]"
    "Install h i = prepend (pre @ snd (tryRestoreFromCache h p k))
                     (install_after_restore h rm k (was_hit h p k))"
    "\<not> list_ex is_download pre" "\<not> list_ex is_save pre"
    "\<not> list_ex is_chmod pre" "\<not> list_ex is_setFailed pre"
proof (cases rule: Install_shape [of h i])
  case stopped
  with list_ex_restore [OF assms] show thesis by simp
next
  case (reached rm key pre)
  obtain es where es: "snd (tryRestoreFromCache h [pathToInstall_of h rm] key)
      = RestoreCache [pathToInstall_of h rm] key # es" "\<not> list_ex is_restore es"
    using hd_tryRestoreFromCache by blast
  have "\<not> list_ex is_restore
      (snd (install_after_restore h rm key (was_hit h [pathToInstall_of h rm] key)))"
    using quiet_install_after_restore [of h rm key] by (simp add: quiet_def)
  with assms reached(4,5) es have pk: "p = [pathToInstall_of h rm] \<and> k = key"
    by (auto simp: list_ex_iff)
  show thesis
    by (rule that [of rm pre]) (use reached pk in simp_all)
qed

lemma unsupported_arch_halts:
  assumes "arch h \<noteq> ''x64''" and "RestoreCache p k \<in> set (snd (Install h i))"
    and "\<not> was_hit h p k"
  shows "fst (Install h i) = Exited
    \<and> last (snd (Install h i)) = SetFailed (''Unsupported architecture: '' @ arch h)"
proof -
  from assms(2) obtain rm pre where
    "getReleaseMetadata h (inputs_version i)
       = (Returned (Some rm), snd (getReleaseMetadata h (inputs_version i)))"
    "getCacheKey h (versionMarker_of rm) = (Returned k, snd (getCacheKey h (versionMarker_of rm)))"
    "p = [pathToInstall_of h rm]"
    and I: "Install h i = prepend (pre @ snd (tryRestoreFromCache h p k))
                     (install_after_restore h rm k (was_hit h p k))"
    by (rule restore_reached)
  show ?thesis
    unfolding I using assms(1,3)
    by (simp add: install_after_restore_miss install_fresh_arch)
qed

lemma hit_finishes:
  assumes "RestoreCache p k \<in> set (snd (Install h i))" and "restoreCache h p k = Inr (Some hk)"
  obtains rm pre where
    "p = [pathToInstall_of h rm]"
    "fst (getReleaseMetadata h (inputs_version i)) = Returned (Some rm)"
    "Install h i =
       prepend (pre @ [RestoreCache p k, Info (TOOL_NAME @ '' restored from cache: '' @ hk)])
         (install_finish h rm (pathToInstall_of h rm) True None)"
    "\<not> list_ex is_download pre" "\<not> list_ex is_setFailed pre" "\<not> list_ex is_chmod pre"
proof -
  from assms(1) obtain rm pre where
    g: "getReleaseMetadata h (inputs_version i)
       = (Returned (Some rm), snd (getReleaseMetadata h (inputs_version i)))"
    and "getCacheKey h (versionMarker_of rm) = (Returned k, snd (getCacheKey h (versionMarker_of rm)))"
    and p: "p = [pathToInstall_of h rm]"
    and I: "Install h i = prepend (pre @ snd (tryRestoreFromCache h p k))
                     (install_after_restore h rm k (was_hit h p k))"
    and q: "\<not> list_ex is_download pre" "\<not> list_ex is_save pre"
      "\<not> list_ex is_chmod pre" "\<not> list_ex is_setFailed pre"
    by (rule restore_reached)
  have w: "was_hit h p k" using assms(2) by (simp add: was_hit_def)
  have t: "snd (tryRestoreFromCache h p k)
      = [RestoreCache p k, Info (TOOL_NAME @ '' restored from cache: '' @ hk)]"
    using assms(2) by (simp add: tryRestoreFromCache_cases)
  show thesis
  proof (rule that [of rm pre])
    show "p = [pathToInstall_of h rm]" by (rule p)
    show "fst (getReleaseMetadata h (inputs_version i)) = Returned (Some rm)"
      using g by (metis fst_conv)
    show "Install h i =
       prepend (pre @ [RestoreCache p k, Info (TOOL_NAME @ '' restored from cache: '' @ hk)])
         (install_finish h rm (pathToInstall_of h rm) True None)"
      unfolding I using w t by (simp add: install_after_restore_hit)
  qed (rule q)+
qed

lemma hit_not_halted:
  assumes "RestoreCache p k \<in> set (snd (Install h i))" and "restoreCache h p k = Inr (Some hk)"
  shows "fst (Install h i) \<noteq> Exited \<and> \<not> list_ex is_setFailed (snd (Install h i))"
proof -
  from assms obtain rm pre where
    "p = [pathToInstall_of h rm]" and
    "fst (getReleaseMetadata h (inputs_version i)) = Returned (Some rm)" and
    I: "Install h i =
       prepend (pre @ [RestoreCache p k, Info (TOOL_NAME @ '' restored from cache: '' @ hk)])
         (install_finish h rm (pathToInstall_of h rm) True None)"
    and q: "\<not> list_ex is_download pre" "\<not> list_ex is_setFailed pre" "\<not> list_ex is_chmod pre"
    by (rule hit_finishes)
  show ?thesis
    unfolding I using q(2) by (simp add: install_finish_cases split: sum.splits)
qed

lemma getDownloadUrl_Returned:
  assumes "fst (getDownloadUrl h rm) = Returned x"
  shows "getDownloadUrl h rm = (Returned (fst x, filename_of (pathname (fst x))), [])"
    and "snd x = filename_of (pathname (fst x))" and "arch h = ''x64''"
  using assms
  by (auto simp: getDownloadUrl_cases split: if_splits option.splits sum.splits)

lemma fst_trySaveToCache: "\<exists>c. fst (trySaveToCache h p k) = Returned c"
  by (simp add: trySaveToCache_cases split: sum.splits thrown.splits)

lemma hd_trySaveToCache:
  "\<exists>es. snd (trySaveToCache h p k) = SaveCache p k # es \<and> \<not> list_ex is_save es
     \<and> \<not> list_ex is_chmod es \<and> \<not> list_ex is_download es"
  by (simp add: trySaveToCache_cases split: sum.splits thrown.splits)

lemma install_fresh_Returned:
  assumes "fst (install_fresh h rm pti key) = Returned d"
  obtains u dp where
    "fst (getDownloadUrl h rm) = Returned (u, filename_of (pathname u))"
    "d = Some (href u)"
    "tc_downloadTool h (href u) (path_join h [TEMP_DIRECTORY h, uuid h, filename_of (pathname u)]) = Inr dp"
    "mkdirP h pti = None"
    "cp h dp (path_join h [pti, filename_of (pathname u)]) = None"
    "chmodSync h (path_join h [pti, filename_of (pathname u)]) mode_0755 = None"
    "rmRF h dp = None"
    "snd (install_fresh h rm pti key) =
       [Download (href u) (path_join h [TEMP_DIRECTORY h, uuid h, filename_of (pathname u)]),
        Info (''Downloaded from '' @ href u @ '' to '' @ dp),
        MkdirP pti,
        Cp dp (path_join h [pti, filename_of (pathname u)]),
        Chmod (path_join h [pti, filename_of (pathname u)]) mode_0755,
        RmRF dp,
        Info (''Extracted '' @ filename_of (pathname u) @ '' to '' @ pti)]
       @ snd (trySaveToCache h [pti] key)"
proof -
  obtain r0 es0 where g: "getDownloadUrl h rm = (r0, es0)" by fastforce
  from assms g obtain x where r0: "r0 = Returned x"
    by (cases r0) (simp_all add: install_fresh_def)
  from g r0 have gx: "getDownloadUrl h rm = (Returned (fst x, filename_of (pathname (fst x))), [])"
    and sx: "snd x = filename_of (pathname (fst x))"
    using getDownloadUrl_Returned [of h rm x] by simp_all
  define u where "u = fst x"
  define f where "f = filename_of (pathname u)"
  have F: "install_fresh h rm pti key =
      bind (downloadTool h u f) (\<lambda>dp. bind (extractPackage h dp pti f) (\<lambda>_.
        bind (trySaveToCache h [pti] key) (\<lambda>_. ret (Some (href u)))))"
    using gx by (simp add: install_fresh_def u_def f_def)
  obtain r1 es1 where dl: "downloadTool h u f = (r1, es1)" by fastforce
  from assms F dl obtain dp where r1: "r1 = Returned dp"
    by (cases r1) simp_all
  from dl r1 have tc: "tc_downloadTool h (href u) (path_join h [TEMP_DIRECTORY h, uuid h, f]) = Inr dp"
    and es1: "es1 = [Download (href u) (path_join h [TEMP_DIRECTORY h, uuid h, f]),
                     Info (''Downloaded from '' @ href u @ '' to '' @ dp)]"
    by (auto simp: downloadTool_cases split: sum.splits thrown.splits)
  obtain r2 es2 where ex: "extractPackage h dp pti f = (r2, es2)" by fastforce
  from assms F dl r1 ex have r2: "r2 = Returned ()"
    by (cases r2) simp_all
  from ex r2 have fs: "mkdirP h pti = None" "cp h dp (path_join h [pti, f]) = None"
      "chmodSync h (path_join h [pti, f]) mode_0755 = None" "rmRF h dp = None"
    and es2: "es2 = [MkdirP pti, Cp dp (path_join h [pti, f]), Chmod (path_join h [pti, f]) mode_0755,
                     RmRF dp, Info (''Extracted '' @ f @ '' to '' @ pti)]"
    by (auto simp: extractPackage_cases Let_def split: option.splits)
  obtain c where sv: "fst (trySaveToCache h [pti] key) = Returned c"
    using fst_trySaveToCache by blast
  then have S: "trySaveToCache h [pti] key = (Returned c, snd (trySaveToCache h [pti] key))"
    by (metis prod.collapse)
  have R: "install_fresh h rm pti key
      = (Returned (Some (href u)), es1 @ es2 @ snd (trySaveToCache h [pti] key))"
    unfolding F dl r1 by (simp add: ex r2) (subst S, simp add: ret_def)
  show thesis
  proof (rule that [of u dp])
    show "fst (getDownloadUrl h rm) = Returned (u, filename_of (pathname u))"
      using gx by (simp add: u_def)
    show "d = Some (href u)" using assms R by simp
    show "tc_downloadTool h (href u) (path_join h [TEMP_DIRECTORY h, uuid h, filename_of (pathname u)]) = Inr dp"
      using tc by (simp add: f_def)
    show "mkdirP h pti = None" by (rule fs(1))
    show "cp h dp (path_join h [pti, filename_of (pathname u)]) = None" using fs(2) by (simp add: f_def)
    show "chmodSync h (path_join h [pti, filename_of (pathname u)]) mode_0755 = None"
      using fs(3) by (simp add: f_def)
    show "rmRF h dp = None" by (rule fs(4))
    show "snd (install_fresh h rm pti key) =
       [Download (href u) (path_join h [TEMP_DIRECTORY h, uuid h, filename_of (pathname u)]),
        Info (''Downloaded from '' @ href u @ '' to '' @ dp),
        MkdirP pti,
        Cp dp (path_join h [pti, filename_of (pathname u)]),
        Chmod (path_join h [pti, filename_of (pathname u)]) mode_0755,
        RmRF dp,
        Info (''Extracted '' @ filename_of (pathname u) @ '' to '' @ pti)]
       @ snd (trySaveToCache h [pti] key)"
      unfolding R by (simp add: es1 es2 f_def)
  qed
qed

lemma quiet_or_returned_bind:
  assumes "quiet P m"
    and "\<And>x. fst m = Returned x \<Longrightarrow> quiet P (f x) \<or> (\<exists>y. fst (f x) = Returned y)"
  shows "quiet P (bind m f) \<or> (\<exists>y. fst (bind m f) = Returned y)"
  using assms by (cases m) (auto simp: bind_def quiet_def split: outcome.splits)

lemma install_fresh_save_or_returned:
  "quiet is_save (install_fresh h rm pti key) \<or> (\<exists>d. fst (install_fresh h rm pti key) = Returned d)"
proof -
  have s: "quiet is_save (bind (trySaveToCache h [pti] key) (\<lambda>_. ret x))
      \<or> (\<exists>y. fst (bind (trySaveToCache h [pti] key) (\<lambda>_. ret x)) = Returned y)"
    for x :: "string option"
  proof -
    obtain c where "fst (trySaveToCache h [pti] key) = Returned c"
      using fst_trySaveToCache by blast
    then show ?thesis by (simp add: fst_bind_ignore ret_def)
  qed
  show ?thesis
    unfolding install_fresh_def
    by (rule quiet_or_returned_bind [OF quiet_getDownloadUrl(3)],
        rule quiet_or_returned_bind [OF quiet_downloadTool(2)],
        rule quiet_or_returned_bind [OF quiet_extractPackage(3)], rule s)
qed

lemma list_ex_save: "SaveCache p k \<in> set es \<Longrightarrow> list_ex is_save es"
  unfolding list_ex_iff by (rule bexI [of _ "SaveCache p k"]) simp_all

lemma fresh_run:
  assumes "fst (Install h i) = Returned res" and "\<not> restoredFromCache res"
  obtains rm key pre u dp where
    "fst (getReleaseMetadata h (inputs_version i)) = Returned (Some rm)"
    "fst (getDownloadUrl h rm) = Returned (u, filename_of (pathname u))"
    "res = \<lparr>name = TOOL_NAME, result_version = version rm, path = pathToInstall_of h rm,
            restoredFromCache = False, downloadUrl = Some (href u)\<rparr>"
    "cp h dp (path_join h [pathToInstall_of h rm, filename_of (pathname u)]) = None"
    "chmodSync h (path_join h [pathToInstall_of h rm, filename_of (pathname u)]) mode_0755 = None"
    "snd (Install h i) =
       pre @ snd (tryRestoreFromCache h [pathToInstall_of h rm] key)
       @ [Download (href u) (path_join h [TEMP_DIRECTORY h, uuid h, filename_of (pathname u)]),
          Info (''Downloaded from '' @ href u @ '' to '' @ dp),
          MkdirP (pathToInstall_of h rm),
          Cp dp (path_join h [pathToInstall_of h rm, filename_of (pathname u)]),
          Chmod (path_join h [pathToInstall_of h rm, filename_of (pathname u)]) mode_0755,
          RmRF dp,
          Info (''Extracted '' @ filename_of (pathname u) @ '' to '' @ pathToInstall_of h rm)]
       @ snd (trySaveToCache h [pathToInstall_of h rm] key)
       @ snd (install_finish h rm (pathToInstall_of h rm) False (Some (href u)))"
    "\<not> list_ex is_chmod pre" "\<not> list_ex is_download pre"
proof (cases rule: Install_shape [of h i])
  case stopped
  with assms(1) show thesis by simp
next
  case (reached rm key pre)
  let ?pti = "pathToInstall_of h rm"
  let ?w = "was_hit h [?pti] key"
  from assms(1) reached(4)
  have R: "fst (install_after_restore h rm key ?w) = Returned res" by simp
  have nw: "\<not> ?w"
  proof
    assume "?w"
    with R have "fst (install_finish h rm ?pti True None) = Returned res"
      by (simp add: install_after_restore_hit)
    then have "restoredFromCache res"
      by (auto simp: install_finish_cases split: sum.splits)
    with assms(2) show False by simp
  qed
  with R have "fst (bind (install_fresh h rm ?pti key) (install_finish h rm ?pti False)) = Returned res"
    by (simp add: install_after_restore_miss)
  then obtain d where d: "fst (install_fresh h rm ?pti key) = Returned d"
    and fin: "fst (install_finish h rm ?pti False d) = Returned res"
    by (rule fst_bind_Returned)
  from d obtain u dp where
    f: "fst (getDownloadUrl h rm) = Returned (u, filename_of (pathname u))"
      "d = Some (href u)"
      "cp h dp (path_join h [?pti, filename_of (pathname u)]) = None"
      "chmodSync h (path_join h [?pti, filename_of (pathname u)]) mode_0755 = None"
      "snd (install_fresh h rm ?pti key) =
       [Download (href u) (path_join h [TEMP_DIRECTORY h, uuid h, filename_of (pathname u)]),
        Info (''Downloaded from '' @ href u @ '' to '' @ dp),
        MkdirP ?pti,
        Cp dp (path_join h [?pti, filename_of (pathname u)]),
        Chmod (path_join h [?pti, filename_of (pathname u)]) mode_0755,
        RmRF dp,
        Info (''Extracted '' @ filename_of (pathname u) @ '' to '' @ ?pti)]
       @ snd (trySaveToCache h [?pti] key)"
    by (rule install_fresh_Returned) blast
  define es where "es = snd (install_fresh h rm ?pti key)"
  have F: "install_fresh h rm ?pti key = (Returned d, es)"
    unfolding es_def by (rule pair_of_fst [OF d])
  have tr: "snd (Install h i) =
      pre @ snd (tryRestoreFromCache h [?pti] key) @ es @ snd (install_finish h rm ?pti False d)"
    unfolding reached(4) using nw F by (simp add: install_after_restore_miss)
  show thesis
  proof (rule that [of rm u dp pre key])
    show "fst (getReleaseMetadata h (inputs_version i)) = Returned (Some rm)"
      using reached(1) by (metis fst_conv)
    show "fst (getDownloadUrl h rm) = Returned (u, filename_of (pathname u))" by (rule f(1))
    show "res = \<lparr>name = TOOL_NAME, result_version = version rm, path = ?pti,
            restoredFromCache = False, downloadUrl = Some (href u)\<rparr>"
      using fin f(2) by (auto simp: install_finish_cases split: sum.splits)
    show "cp h dp (path_join h [?pti, filename_of (pathname u)]) = None" by (rule f(3))
    show "chmodSync h (path_join h [?pti, filename_of (pathname u)]) mode_0755 = None" by (rule f(4))
    show "snd (Install h i) =
       pre @ snd (tryRestoreFromCache h [?pti] key)
       @ [Download (href u) (path_join h [TEMP_DIRECTORY h, uuid h, filename_of (pathname u)]),
          Info (''Downloaded from '' @ href u @ '' to '' @ dp),
          MkdirP ?pti,
          Cp dp (path_join h [?pti, filename_of (pathname u)]),
          Chmod (path_join h [?pti, filename_of (pathname u)]) mode_0755,
          RmRF dp,
          Info (''Extracted '' @ filename_of (pathname u) @ '' to '' @ ?pti)]
       @ snd (trySaveToCache h [?pti] key)
       @ snd (install_finish h rm ?pti False (Some (href u)))"
      unfolding tr using f(5) f(2) by (simp add: es_def)
    show "\<not> list_ex is_chmod pre" by (rule reached(8))
    show "\<not> list_ex is_download pre" by (rule reached(6))
  qed
qed

lemma returned_flag:
  assumes "fst (install_after_restore h rm key w) = Returned res"
  shows "restoredFromCache res = w"
proof (cases w)
  case True
  with assms show ?thesis
    by (auto simp: install_after_restore_hit install_finish_cases split: sum.splits)
next
  case False
  with assms obtain d where "fst (install_finish h rm (pathToInstall_of h rm) False d) = Returned res"
    by (auto simp: install_after_restore_miss elim: fst_bind_Returned)
  with False show ?thesis
    by (auto simp: install_finish_cases split: sum.splits)
qed

lemma hit_no_download:
  assumes "RestoreCache p k \<in> set (snd (Install h i))" and "restoreCache h p k = Inr (Some hk)"
  shows "\<not> list_ex is_download (snd (Install h i))
    \<and> (\<forall>res. fst (Install h i) = Returned res \<longrightarrow> restoredFromCache res \<and> downloadUrl res = None)"
proof -
  from assms obtain rm pre where
    I: "Install h i =
       prepend (pre @ [RestoreCache p k, Info (TOOL_NAME @ '' restored from cache: '' @ hk)])
         (install_finish h rm (pathToInstall_of h rm) True None)"
    and q: "\<not> list_ex is_download pre"
    by (rule hit_finishes)
  have "\<not> list_ex is_download (snd (install_finish h rm (pathToInstall_of h rm) True None))"
    using quiet_install_finish(2) [of h rm "pathToInstall_of h rm" True None] by (simp add: quiet_def)
  with q show ?thesis
    unfolding I by (auto simp: install_finish_cases split: sum.splits)
qed

lemma restore_error_warns:
  assumes "RestoreCache p k \<in> set (snd (Install h i))"
  shows "(restoreCache h p k = Inr None \<longrightarrow>
            Warning (''Cache for '' @ TOOL_NAME @ '' not found'') \<in> set (snd (Install h i)))
       \<and> (\<forall>m. restoreCache h p k = Inl (JsError m) \<longrightarrow> Warning m \<in> set (snd (Install h i)))"
proof -
  from assms obtain rm pre where
    I: "Install h i = prepend (pre @ snd (tryRestoreFromCache h p k))
                     (install_after_restore h rm k (was_hit h p k))"
    by (rule restore_reached)
  show ?thesis
    unfolding I by (auto simp: tryRestoreFromCache_cases)
qed

lemma restoreCache_update_leaf:
  "getReleaseMetadata (h\<lparr>restoreCache := g\<rparr>) v = getReleaseMetadata h v"
  "getCacheKey (h\<lparr>restoreCache := g\<rparr>) v = getCacheKey h v"
  "path_join (h\<lparr>restoreCache := g\<rparr>) segs = path_join h segs"
  "getDownloadUrl (h\<lparr>restoreCache := g\<rparr>) rm = getDownloadUrl h rm"
  "trySaveToCache (h\<lparr>restoreCache := g\<rparr>) ps key = trySaveToCache h ps key"
  "install_finish (h\<lparr>restoreCache := g\<rparr>) rm pti w = install_finish h rm pti w"
  by (simp_all add: getReleaseMetadata_cases getCacheKey_cases path_join_def
      getDownloadUrl_cases trySaveToCache_cases install_finish_cases fun_eq_iff number_string_def
      split: sum.splits option.splits thrown.splits list.splits)

lemma restoreCache_update_mid:
  "downloadTool (h\<lparr>restoreCache := g\<rparr>) u f = downloadTool h u f"
  "extractPackage (h\<lparr>restoreCache := g\<rparr>) dp pti f = extractPackage h dp pti f"
  "pathToInstall_of (h\<lparr>restoreCache := g\<rparr>) rm = pathToInstall_of h rm"
  by (simp_all add: downloadTool_cases extractPackage_cases pathToInstall_of_def
      restoreCache_update_leaf Let_def split: sum.splits option.splits thrown.splits)

lemma restoreCache_update [simp]:
  "getReleaseMetadata (h\<lparr>restoreCache := g\<rparr>) v = getReleaseMetadata h v"
  "getCacheKey (h\<lparr>restoreCache := g\<rparr>) v = getCacheKey h v"
  "pathToInstall_of (h\<lparr>restoreCache := g\<rparr>) rm = pathToInstall_of h rm"
  "install_after_restore (h\<lparr>restoreCache := g\<rparr>) rm key w = install_after_restore h rm key w"
  by (simp_all add: install_after_restore_def install_fresh_def restoreCache_update_leaf
      restoreCache_update_mid)

lemma restore_error_is_miss:
  assumes "RestoreCache p k \<in> set (snd (Install h i))"
    and "\<forall>hk. restoreCache h p k \<noteq> Inr (Some hk)"
  shows "fst (Install h i) = fst (Install (h\<lparr>restoreCache := (\<lambda>_ _. Inr None)\<rparr>) i)"
proof -
  let ?h = "h\<lparr>restoreCache := (\<lambda>_ _. Inr None)\<rparr>"
  from assms(1) obtain rm pre where
    g: "getReleaseMetadata h (inputs_version i) = (Returned (Some rm), snd (getReleaseMetadata h (inputs_version i)))"
    and c: "getCacheKey h (versionMarker_of rm) = (Returned k, snd (getCacheKey h (versionMarker_of rm)))"
    and p: "p = [pathToInstall_of h rm]"
    and I: "Install h i = prepend (pre @ snd (tryRestoreFromCache h p k))
                     (install_after_restore h rm k (was_hit h p k))"
    by (rule restore_reached)
  have w: "\<not> was_hit h p k" using assms(2) by (simp add: was_hit_iff)
  have "fst (Install ?h i) = fst (install_after_restore h rm k False)"
    unfolding Install_eq restoreCache_update
    by (subst g, simp add: install_resolved_eq, subst c, simp add: tryRestoreFromCache_cases)
  with I w show ?thesis by simp
qed

lemma install_fresh_downloads:
  assumes "fst (getDownloadUrl h rm) = Returned (u, f)"
  shows "\<exists>d es. snd (install_fresh h rm pti key) = Download (href u) d # es"
proof -
  from assms have g: "getDownloadUrl h rm = (Returned (u, filename_of (pathname u)), [])"
    using getDownloadUrl_Returned(1) [of h rm "(u, f)"] by simp
  obtain es where "snd (install_fresh h rm pti key) = snd (downloadTool h u (filename_of (pathname u))) @ es"
    unfolding install_fresh_def g using snd_bind_prefix by (simp, blast)
  then show ?thesis
    by (auto simp: downloadTool_cases split: sum.splits thrown.splits)
qed

lemma miss_downloads:
  assumes "RestoreCache p k \<in> set (snd (Install h i))"
    and "\<forall>hk. restoreCache h p k \<noteq> Inr (Some hk)"
    and "fst (getReleaseMetadata h (inputs_version i)) = Returned (Some rm)"
    and "fst (getDownloadUrl h rm) = Returned (u, f)"
  shows "\<exists>d. Download (href u) d \<in> set (snd (Install h i))"
proof -
  from assms(1) obtain rm' pre where
    g: "getReleaseMetadata h (inputs_version i) = (Returned (Some rm'), snd (getReleaseMetadata h (inputs_version i)))"
    and I: "Install h i = prepend (pre @ snd (tryRestoreFromCache h p k))
                     (install_after_restore h rm' k (was_hit h p k))"
    by (rule restore_reached)
  from g assms(3) have rm: "rm' = rm" by (metis fst_conv outcome.inject option.inject)
  have w: "\<not> was_hit h p k" using assms(2) by (simp add: was_hit_iff)
  obtain d es where f: "snd (install_fresh h rm (pathToInstall_of h rm) k) = Download (href u) d # es"
    using install_fresh_downloads [OF assms(4)] by blast
  obtain es' where "snd (install_after_restore h rm k False) =
      snd (install_fresh h rm (pathToInstall_of h rm) k) @ es'"
    unfolding install_after_restore_miss using snd_bind_prefix by blast
  with f I w rm show ?thesis by auto
qed

lemma miss_result:
  assumes "RestoreCache p k \<in> set (snd (Install h i))"
    and "\<forall>hk. restoreCache h p k \<noteq> Inr (Some hk)"
    and "fst (Install h i) = Returned res"
  shows "\<not> restoredFromCache res
    \<and> (\<exists>u d. downloadUrl res = Some u \<and> Download u d \<in> set (snd (Install h i)))"
proof -
  from assms(1) obtain rm pre where
    I: "Install h i = prepend (pre @ snd (tryRestoreFromCache h p k))
                     (install_after_restore h rm k (was_hit h p k))"
    by (rule restore_reached)
  have w: "\<not> was_hit h p k" using assms(2) by (simp add: was_hit_iff)
  from I assms(3) have "fst (install_after_restore h rm k (was_hit h p k)) = Returned res"
    by simp
  with w have n: "\<not> restoredFromCache res" using returned_flag by blast
  from assms(3) n obtain rm' key pre' u dp where
    "fst (getReleaseMetadata h (inputs_version i)) = Returned (Some rm')"
    "fst (getDownloadUrl h rm') = Returned (u, filename_of (pathname u))"
    and res: "res = \<lparr>name = TOOL_NAME, result_version = version rm', path = pathToInstall_of h rm',
            restoredFromCache = False, downloadUrl = Some (href u)\<rparr>"
    and ok: "cp h dp (path_join h [pathToInstall_of h rm', filename_of (pathname u)]) = None"
      "chmodSync h (path_join h [pathToInstall_of h rm', filename_of (pathname u)]) mode_0755 = None"
    and tr: "snd (Install h i) =
       pre' @ snd (tryRestoreFromCache h [pathToInstall_of h rm'] key)
       @ [Download (href u) (path_join h [TEMP_DIRECTORY h, uuid h, filename_of (pathname u)]),
          Info (''Downloaded from '' @ href u @ '' to '' @ dp),
          MkdirP (pathToInstall_of h rm'),
          Cp dp (path_join h [pathToInstall_of h rm', filename_of (pathname u)]),
          Chmod (path_join h [pathToInstall_of h rm', filename_of (pathname u)]) mode_0755,
          RmRF dp,
          Info (''Extracted '' @ filename_of (pathname u) @ '' to '' @ pathToInstall_of h rm')]
       @ snd (trySaveToCache h [pathToInstall_of h rm'] key)
       @ snd (install_finish h rm' (pathToInstall_of h rm') False (Some (href u)))"
    and q: "\<not> list_ex is_chmod pre'" "\<not> list_ex is_download pre'"
    by (rule fresh_run)
  have "downloadUrl res = Some (href u)" by (simp add: res)
  moreover have "Download (href u) (path_join h [TEMP_DIRECTORY h, uuid h, filename_of (pathname u)])
      \<in> set (snd (Install h i))"
    unfolding tr by simp
  ultimately show ?thesis using n by blast
qed

lemma saveCache_update_leaf:
  "getReleaseMetadata (h\<lparr>saveCache := g\<rparr>) v = getReleaseMetadata h v"
  "getCacheKey (h\<lparr>saveCache := g\<rparr>) v = getCacheKey h v"
  "tryRestoreFromCache (h\<lparr>saveCache := g\<rparr>) ps key = tryRestoreFromCache h ps key"
  "path_join (h\<lparr>saveCache := g\<rparr>) segs = path_join h segs"
  "getDownloadUrl (h\<lparr>saveCache := g\<rparr>) rm = getDownloadUrl h rm"
  "install_finish (h\<lparr>saveCache := g\<rparr>) rm pti w = install_finish h rm pti w"
  by (simp_all add: getReleaseMetadata_cases getCacheKey_cases tryRestoreFromCache_cases
      path_join_def getDownloadUrl_cases install_finish_cases fun_eq_iff
      split: sum.splits option.splits thrown.splits list.splits)

lemma saveCache_update_mid:
  "downloadTool (h\<lparr>saveCache := g\<rparr>) u f = downloadTool h u f"
  "extractPackage (h\<lparr>saveCache := g\<rparr>) dp pti f = extractPackage h dp pti f"
  "pathToInstall_of (h\<lparr>saveCache := g\<rparr>) rm = pathToInstall_of h rm"
  by (simp_all add: downloadTool_cases extractPackage_cases pathToInstall_of_def
      saveCache_update_leaf Let_def split: sum.splits option.splits thrown.splits)

lemma fst_install_fresh_saveCache:
  "fst (install_fresh (h\<lparr>saveCache := g\<rparr>) rm pti key) = fst (install_fresh h rm pti key)"
proof -
  have s: "fst (bind (trySaveToCache h' [pti] key) (\<lambda>_. ret x))
      = fst (bind (trySaveToCache h [pti] key) (\<lambda>_. ret x))" for h' and x :: "string option"
  proof -
    obtain c c' where "fst (trySaveToCache h' [pti] key) = Returned c'"
        "fst (trySaveToCache h [pti] key) = Returned c"
      using fst_trySaveToCache by blast
    then show ?thesis by (simp add: fst_bind_ignore)
  qed
  show ?thesis
    unfolding install_fresh_def saveCache_update_leaf saveCache_update_mid
    by (intro fst_bind_cong refl s)
qed

lemma save_outcome_independent:
  "fst (Install (h\<lparr>saveCache := g\<rparr>) i) = fst (Install h i)"
proof -
  have a: "fst (install_after_restore (h\<lparr>saveCache := g\<rparr>) rm key w)
      = fst (install_after_restore h rm key w)" for rm key w
    unfolding install_after_restore_def saveCache_update_leaf saveCache_update_mid
    by (intro fst_bind_cong refl) (simp add: fst_install_fresh_saveCache)
  have b: "fst (install_resolved (h\<lparr>saveCache := g\<rparr>) rm) = fst (install_resolved h rm)" for rm
    unfolding install_resolved_eq fst_prepend saveCache_update_leaf saveCache_update_mid
    by (intro fst_bind_cong refl a)
  show ?thesis
    unfolding Install_eq saveCache_update_leaf
    by (intro fst_bind_cong refl) (simp add: b split: option.splits)
qed

lemma save_reached:
  assumes "SaveCache p k \<in> set (snd (Install h i))"
  obtains rm pre d where
    "Install h i = prepend (pre @ snd (trySaveToCache h p k))
                     (install_finish h rm (pathToInstall_of h rm) False d)"
proof (cases rule: Install_shape [of h i])
  case stopped
  with list_ex_save [OF assms] show thesis by simp
next
  case (reached rm key pre)
  let ?pti = "pathToInstall_of h rm"
  have qr: "\<not> list_ex is_save (snd (tryRestoreFromCache h [?pti] key))"
    using quiet_tryRestoreFromCache(2) [of h "[?pti]" key] by (simp add: quiet_def)
  have qf: "\<not> list_ex is_save (snd (install_finish h rm ?pti w d))" for w d
    using quiet_install_finish(3) [of h rm ?pti w d] by (simp add: quiet_def)
  from list_ex_save [OF assms] reached(4,7) qr
  have A: "list_ex is_save (snd (install_after_restore h rm key (was_hit h [?pti] key)))"
    by simp
  have w: "\<not> was_hit h [?pti] key"
    using A qf by (auto simp: install_after_restore_hit)
  obtain r es where F: "install_fresh h rm ?pti key = (r, es)" by fastforce
  have "\<exists>d. r = Returned d"
  proof (rule ccontr)
    assume n: "\<nexists>d. r = Returned d"
    with F install_fresh_save_or_returned [of h rm ?pti key] have "\<not> list_ex is_save es"
      by (simp add: quiet_def)
    moreover from n F have "snd (install_after_restore h rm key False) = es"
      by (cases r) (simp_all add: install_after_restore_miss)
    ultimately show False using A w by simp
  qed
  then obtain d where d: "fst (install_fresh h rm ?pti key) = Returned d"
    using F by auto
  from d obtain u dp where
    "fst (getDownloadUrl h rm) = Returned (u, filename_of (pathname u))"
    "d = Some (href u)"
    "tc_downloadTool h (href u) (path_join h [TEMP_DIRECTORY h, uuid h, filename_of (pathname u)]) = Inr dp"
    "mkdirP h ?pti = None"
    "cp h dp (path_join h [?pti, filename_of (pathname u)]) = None"
    "chmodSync h (path_join h [?pti, filename_of (pathname u)]) mode_0755 = None"
    "rmRF h dp = None"
    and tr: "snd (install_fresh h rm ?pti key) =
       [Download (href u) (path_join h [TEMP_DIRECTORY h, uuid h, filename_of (pathname u)]),
        Info (''Downloaded from '' @ href u @ '' to '' @ dp),
        MkdirP ?pti,
        Cp dp (path_join h [?pti, filename_of (pathname u)]),
        Chmod (path_join h [?pti, filename_of (pathname u)]) mode_0755,
        RmRF dp,
        Info (''Extracted '' @ filename_of (pathname u) @ '' to '' @ ?pti)]
       @ snd (trySaveToCache h [?pti] key)"
    by (rule install_fresh_Returned)
  obtain es' where sv: "snd (trySaveToCache h [?pti] key) = SaveCache [?pti] key # es'"
      "\<not> list_ex is_save es'"
    using hd_trySaveToCache by blast
  define fr where "fr = snd (install_fresh h rm ?pti key)"
  have Fd: "install_fresh h rm ?pti key = (Returned d, fr)"
    unfolding fr_def by (rule pair_of_fst [OF d])
  have I: "Install h i = prepend (pre @ snd (tryRestoreFromCache h [?pti] key) @ fr)
      (install_finish h rm ?pti False d)"
    unfolding reached(4) using w Fd by (simp add: install_after_restore_miss)
  from assms I reached(7) qr qf [of False d] tr sv have pk: "p = [?pti] \<and> k = key"
    by (auto simp: list_ex_iff fr_def)
  show thesis
  proof (rule that)
    show "Install h i =
        prepend ((pre @ snd (tryRestoreFromCache h [?pti] key)
          @ [Download (href u) (path_join h [TEMP_DIRECTORY h, uuid h, filename_of (pathname u)]),
             Info (''Downloaded from '' @ href u @ '' to '' @ dp),
             MkdirP ?pti,
             Cp dp (path_join h [?pti, filename_of (pathname u)]),
             Chmod (path_join h [?pti, filename_of (pathname u)]) mode_0755,
             RmRF dp,
             Info (''Extracted '' @ filename_of (pathname u) @ '' to '' @ ?pti)])
          @ snd (trySaveToCache h p k))
        (install_finish h rm ?pti False d)"
      unfolding I using tr pk by (simp add: fr_def)
  qed
qed

subsection \<open>File names, cache keys and the version pattern\<close>

lemma split_not_Nil [simp]: "split sep s \<noteq> []"
  by (induction s) (auto split: list.splits)

lemma split_no_sep: "sep \<notin> set s \<Longrightarrow> split sep s = [s]"
  by (induction s) auto

lemma split_sep_tl: "sep \<in> set s \<Longrightarrow> tl (split sep s) \<noteq> []"
  by (induction s) (auto split: list.splits simp: split_no_sep)

lemma split_snoc_sep: "split sep (q @ [sep]) = split sep q @ [[]]"
  by (induction q) (auto split: list.splits)

lemma last_split_snoc: "last (split sep (q @ [sep])) = []"
  by (simp add: split_snoc_sep)

lemma last_split_after: "last (split sep s) = rev (takeWhile (\<lambda>c. c \<noteq> sep) (rev s))"
proof (induction s)
  case Nil
  show ?case by simp
next
  case (Cons c s)
  show ?case
  proof (cases "sep \<in> set s")
    case True
    then have "tl (split sep s) \<noteq> []" by (rule split_sep_tl)
    then obtain a b bs where s: "split sep s = a # b # bs"
      by (cases "split sep s"; cases "tl (split sep s)") auto
    have "takeWhile (\<lambda>c. c \<noteq> sep) (rev s @ [c]) = takeWhile (\<lambda>c. c \<noteq> sep) (rev s)"
      using True by (auto simp: takeWhile_append)
    with Cons s show ?thesis by auto
  next
    case False
    then have s: "split sep s = [s]" by (rule split_no_sep)
    from False have "\<forall>x\<in>set (rev s). x \<noteq> sep" by auto
    with s show ?thesis by (auto simp: takeWhile_append)
  qed
qed

lemma filename_of_eq:
  "filename_of p = (if CHR ''/'' \<in> set p then last (split CHR ''/'' p) else [])"
proof (cases "CHR ''/'' \<in> set p")
  case True
  then have "tl (split CHR ''/'' p) \<noteq> []" by (rule split_sep_tl)
  then obtain a b bs where "split CHR ''/'' p = a # b # bs"
    by (cases "split CHR ''/'' p"; cases "tl (split CHR ''/'' p)") auto
  with True show ?thesis by (simp add: filename_of_def)
next
  case False
  then show ?thesis by (simp add: filename_of_def split_no_sep)
qed

lemma filename_of_trailing_slash: "filename_of (q @ ''/'') = []"
  using last_split_snoc [of "CHR ''/''" q] by (simp add: filename_of_eq)

lemma path_join_empty_filename:
  assumes "normalizes h"
  shows "path_join h [pathToInstall_of h rm, []] = pathToInstall_of h rm"
proof -
  have n: "TOOL_NAME @ ''-'' @ versionMarker_of rm \<noteq> []"
    by (simp add: TOOL_NAME_def)
  then obtain q where p: "pathToInstall_of h rm = path_normalize h q"
    by (cases "TEMP_DIRECTORY h = []") (simp_all add: pathToInstall_of_def path_join_def)
  with assms have "pathToInstall_of h rm \<noteq> []"
    "path_normalize h (pathToInstall_of h rm) = pathToInstall_of h rm"
    by (simp_all add: normalizes_def)
  then show ?thesis by (simp add: path_join_def)
qed

lemma fst_getCacheKey:
  "fst (getCacheKey h v) =
     (if platform h = ''linux''
      then (case getExecOutput h ''lsb_release'' [''-cs''] of
              Inl e \<Rightarrow> Thrown e
            | Inr out \<Rightarrow> Returned (cache_key_format TOOL_NAME v ''linux'' (arch h) (Some (trim out))))
      else Returned (cache_key_format TOOL_NAME v (platform h) (arch h) None))"
  by (simp add: getCacheKey_cases cache_key_format_def split: sum.splits)

lemma getCacheKey_Returned:
  assumes "fst (getCacheKey h v) = Returned key"
  shows "key = cache_key_format TOOL_NAME v (platform h) (arch h) (codename_of h)"
    and "(codename_of h = None) = (platform h \<noteq> ''linux'')"
  using assms by (auto simp: fst_getCacheKey codename_of_def split: if_splits sum.splits)

lemma differing_4:
  "differing [a, b, c, d] [a', b', c', d'] = 1 \<longleftrightarrow>
     (a \<noteq> a' \<and> b = b' \<and> c = c' \<and> d = d') \<or> (a = a' \<and> b \<noteq> b' \<and> c = c' \<and> d = d')
   \<or> (a = a' \<and> b = b' \<and> c \<noteq> c' \<and> d = d') \<or> (a = a' \<and> b = b' \<and> c = c' \<and> d \<noteq> d')"
  by (auto simp: differing_def)

lemma cache_key_format_sensitive:
  "v \<noteq> v' \<Longrightarrow> cache_key_format t v os a c \<noteq> cache_key_format t v' os a c"
  "os \<noteq> os' \<Longrightarrow> cache_key_format t v os a None \<noteq> cache_key_format t v os' a None"
  "a \<noteq> a' \<Longrightarrow> cache_key_format t v os a c \<noteq> cache_key_format t v os a' c"
  "x \<noteq> x' \<Longrightarrow> cache_key_format t v os a (Some x) \<noteq> cache_key_format t v os a (Some x')"
  by (simp_all add: cache_key_format_def)

lemma same_inputs_same_key:
  assumes "fst (getCacheKey h v) = Returned key" and "fst (getCacheKey h' v') = Returned key'"
    and "key_inputs h v = key_inputs h' v'"
  shows "key = key'"
  using getCacheKey_Returned(1) [OF assms(1)] getCacheKey_Returned(1) [OF assms(2)] assms(3)
  by (simp add: key_inputs_def)

lemma one_input_differs:
  assumes "fst (getCacheKey h v) = Returned key" and "fst (getCacheKey h' v') = Returned key'"
    and "differing (key_inputs h v) (key_inputs h' v') = 1"
  shows "key \<noteq> key'"
proof -
  note k = getCacheKey_Returned [OF assms(1)] and k' = getCacheKey_Returned [OF assms(2)]
  from assms(3) consider
    (v) "v \<noteq> v'" "platform h = platform h'" "arch h = arch h'" "codename_of h = codename_of h'"
    | (os) "v = v'" "platform h \<noteq> platform h'" "arch h = arch h'" "codename_of h = codename_of h'"
    | (a) "v = v'" "platform h = platform h'" "arch h \<noteq> arch h'" "codename_of h = codename_of h'"
    | (c) "v = v'" "platform h = platform h'" "arch h = arch h'" "codename_of h \<noteq> codename_of h'"
    unfolding key_inputs_def differing_4 by auto
  then show ?thesis
  proof cases
    case v
    then show ?thesis unfolding k(1) k'(1) by (simp add: cache_key_format_sensitive(1))
  next
    case os
    with k(2) k'(2) have "codename_of h = None" "codename_of h' = None"
      by auto
    with os show ?thesis unfolding k(1) k'(1) by (simp add: cache_key_format_sensitive(2))
  next
    case a
    then show ?thesis unfolding k(1) k'(1) by (simp add: cache_key_format_sensitive(3))
  next
    case c
    with k(2) k'(2) obtain x x' where "codename_of h = Some x" "codename_of h' = Some x'" "x \<noteq> x'"
      by (cases "codename_of h"; cases "codename_of h'") auto
    with c show ?thesis unfolding k(1) k'(1) by (simp add: cache_key_format_sensitive(4))
  qed
qed

lemma group2_mono:
  assumes "\<And>c. sep c \<Longrightarrow> sep' c"
  shows "group2 sep s \<Longrightarrow> group2 sep' s"
proof (induction s)
  case Nil
  then show ?case by simp
next
  case (Cons c cs)
  then show ?case using assms [of c] by auto
qed

lemma group1_mono:
  assumes "\<And>c. sep c \<Longrightarrow> sep' c"
  shows "group1 sep s \<Longrightarrow> group1 sep' s"
proof (induction s)
  case Nil
  then show ?case by simp
next
  case (Cons c cs)
  show ?case
  proof (cases cs)
    case Nil
    with Cons show ?thesis by simp
  next
    case (Cons d ds)
    with Cons.prems Cons.IH assms [of c] group2_mono [OF assms, where s = ds] show ?thesis
      by auto
  qed
qed

lemma regex_test_mono:
  assumes "\<And>c. sep c \<Longrightarrow> sep' c"
  shows "regex_test sep s \<Longrightarrow> regex_test sep' s"
proof (induction s)
  case Nil
  then show ?case by simp
next
  case (Cons c cs)
  then show ?case using group1_mono [OF assms, where s = cs] by auto
qed

lemma dotted_triple_matches: "dotted_triple_test s \<Longrightarrow> version_pattern_test s"
  unfolding dotted_triple_test_def version_pattern_test_def
  using regex_test_mono [of "\<lambda>c. c = CHR ''.''" regex_dot s]
  by (simp add: regex_dot_def is_line_terminator_def)

subsection \<open>Evaluating a run on a concrete host\<close>

lemmas eval_simps = Install_eq install_resolved_eq getReleaseMetadata_cases getCacheKey_cases
  tryRestoreFromCache_cases install_after_restore_def install_fresh_def getDownloadUrl_cases
  downloadTool_cases extractPackage_cases trySaveToCache_cases install_finish_cases
  versionMarker_of_def pathToInstall_of_def path_join_def template_def TOOL_NAME_def
  TOOL_VERSION_ARG_def TOOL_RELEASE_METADATA_def find_entry_def entry_matches_def
  version_pattern_test_def is_digit_def regex_dot_def is_line_terminator_def trim_def
  is_white_space_def filename_of_def number_string_def ret_def throw_def Let_def

lemmas host_defs = runner_def inputs0_def nightly_inputs_def entry0_def dated_entry_def
  slash_entry_def arm_runner_def hit_runner_def arm_hit_runner_def
  bsd_hit_runner_def broken_tool_runner_def throwing_cache_runner_def failing_save_runner_def
  slash_runner_def dated_runner_def no_input_runner_def

lemma arm_runner_run:
  "Install arm_runner inputs0 =
    (Exited,
     [Info ''Fetching release metadata for version: stable'',
      Fetch ''https://swalocaldeploy.azureedge.net/downloads/versions.json'',
      Info ''Version to install: 1.0.020761-stable (target directory: /tmp/StaticSitesClient-1.0.020761-stable)'',
      Exec ''lsb_release'' [''-cs''],
      Info ''Cache key: StaticSitesClient-1.0.020761-stable-linux-arm64-focal-cache'',
      RestoreCache [''/tmp/StaticSitesClient-1.0.020761-stable'']
        ''StaticSitesClient-1.0.020761-stable-linux-arm64-focal-cache'',
      Warning ''Cache for StaticSitesClient not found'',
      SetFailed ''Unsupported architecture: arm64''])"
  by (simp add: eval_simps host_defs)

lemma bsd_hit_runner_run:
  "Install bsd_hit_runner inputs0 =
    (Returned \<lparr>name = ''StaticSitesClient'', result_version = Some ''stable'',
               path = ''/tmp/StaticSitesClient-1.0.020761-stable'',
               restoredFromCache = True, downloadUrl = None\<rparr>,
     [Info ''Fetching release metadata for version: stable'',
      Fetch ''https://swalocaldeploy.azureedge.net/downloads/versions.json'',
      Info ''Version to install: 1.0.020761-stable (target directory: /tmp/StaticSitesClient-1.0.020761-stable)'',
      Info ''Cache key: StaticSitesClient-1.0.020761-stable-freebsd-arm64-cache'',
      RestoreCache [''/tmp/StaticSitesClient-1.0.020761-stable'']
        ''StaticSitesClient-1.0.020761-stable-freebsd-arm64-cache'',
      Info ''StaticSitesClient restored from cache: StaticSitesClient-1.0.020761-stable-freebsd-arm64-cache'',
      AddPath ''/tmp/StaticSitesClient-1.0.020761-stable'',
      Exec ''StaticSitesClient'' [''version''],
      Debug ''1.0.020761''])"
  by (simp add: eval_simps host_defs)

lemma hit_runner_run:
  "Install hit_runner inputs0 =
    (Returned \<lparr>name = ''StaticSitesClient'', result_version = Some ''stable'',
               path = ''/tmp/StaticSitesClient-1.0.020761-stable'',
               restoredFromCache = True, downloadUrl = None\<rparr>,
     [Info ''Fetching release metadata for version: stable'',
      Fetch ''https://swalocaldeploy.azureedge.net/downloads/versions.json'',
      Info ''Version to install: 1.0.020761-stable (target directory: /tmp/StaticSitesClient-1.0.020761-stable)'',
      Exec ''lsb_release'' [''-cs''],
      Info ''Cache key: StaticSitesClient-1.0.020761-stable-linux-x64-focal-cache'',
      RestoreCache [''/tmp/StaticSitesClient-1.0.020761-stable'']
        ''StaticSitesClient-1.0.020761-stable-linux-x64-focal-cache'',
      Info ''StaticSitesClient restored from cache: StaticSitesClient-1.0.020761-stable-linux-x64-focal-cache'',
      AddPath ''/tmp/StaticSitesClient-1.0.020761-stable'',
      Exec ''StaticSitesClient'' [''version''],
      Debug ''1.0.020761''])"
  by (simp add: eval_simps host_defs)

lemma throwing_cache_runner_run:
  "Install throwing_cache_runner inputs0 =
    (Returned \<lparr>name = ''StaticSitesClient'', result_version = Some ''stable'',
               path = ''/tmp/StaticSitesClient-1.0.020761-stable'',
               restoredFromCache = False,
               downloadUrl = Some ''https://example.org/linux/StaticSitesClient''\<rparr>,
     [Info ''Fetching release metadata for version: stable'',
      Fetch ''https://swalocaldeploy.azureedge.net/downloads/versions.json'',
      Info ''Version to install: 1.0.020761-stable (target directory: /tmp/StaticSitesClient-1.0.020761-stable)'',
      Exec ''lsb_release'' [''-cs''],
      Info ''Cache key: StaticSitesClient-1.0.020761-stable-linux-x64-focal-cache'',
      RestoreCache [''/tmp/StaticSitesClient-1.0.020761-stable'']
        ''StaticSitesClient-1.0.020761-stable-linux-x64-focal-cache'',
      Warning ''Cache service responded with 503'',
      Download ''https://example.org/linux/StaticSitesClient'' ''/tmp/u1/StaticSitesClient'',
      Info ''Downloaded from https://example.org/linux/StaticSitesClient to /tmp/u1/StaticSitesClient'',
      MkdirP ''/tmp/StaticSitesClient-1.0.020761-stable'',
      Cp ''/tmp/u1/StaticSitesClient'' ''/tmp/StaticSitesClient-1.0.020761-stable/StaticSitesClient'',
      Chmod ''/tmp/StaticSitesClient-1.0.020761-stable/StaticSitesClient'' mode_0755,
      RmRF ''/tmp/u1/StaticSitesClient'',
      Info ''Extracted StaticSitesClient to /tmp/StaticSitesClient-1.0.020761-stable'',
      SaveCache [''/tmp/StaticSitesClient-1.0.020761-stable'']
        ''StaticSitesClient-1.0.020761-stable-linux-x64-focal-cache'',
      Info ''StaticSitesClient saved to cache (cacheId: 7, cacheKey: StaticSitesClient-1.0.020761-stable-linux-x64-focal-cache)'',
      AddPath ''/tmp/StaticSitesClient-1.0.020761-stable'',
      Exec ''StaticSitesClient'' [''version''],
      Debug ''1.0.020761''])"
  by code_simp

lemma failing_save_runner_run:
  "Install failing_save_runner inputs0 =
    (Returned \<lparr>name = ''StaticSitesClient'', result_version = Some ''stable'',
               path = ''/tmp/StaticSitesClient-1.0.020761-stable'',
               restoredFromCache = False,
               downloadUrl = Some ''https://example.org/linux/StaticSitesClient''\<rparr>,
     [Info ''Fetching release metadata for version: stable'',
      Fetch ''https://swalocaldeploy.azureedge.net/downloads/versions.json'',
      Info ''Version to install: 1.0.020761-stable (target directory: /tmp/StaticSitesClient-1.0.020761-stable)'',
      Exec ''lsb_release'' [''-cs''],
      Info ''Cache key: StaticSitesClient-1.0.020761-stable-linux-x64-focal-cache'',
      RestoreCache [''/tmp/StaticSitesClient-1.0.020761-stable'']
        ''StaticSitesClient-1.0.020761-stable-linux-x64-focal-cache'',
      Warning ''Cache for StaticSitesClient not found'',
      Download ''https://example.org/linux/StaticSitesClient'' ''/tmp/u1/StaticSitesClient'',
      Info ''Downloaded from https://example.org/linux/StaticSitesClient to /tmp/u1/StaticSitesClient'',
      MkdirP ''/tmp/StaticSitesClient-1.0.020761-stable'',
      Cp ''/tmp/u1/StaticSitesClient'' ''/tmp/StaticSitesClient-1.0.020761-stable/StaticSitesClient'',
      Chmod ''/tmp/StaticSitesClient-1.0.020761-stable/StaticSitesClient'' mode_0755,
      RmRF ''/tmp/u1/StaticSitesClient'',
      Info ''Extracted StaticSitesClient to /tmp/StaticSitesClient-1.0.020761-stable'',
      SaveCache [''/tmp/StaticSitesClient-1.0.020761-stable'']
        ''StaticSitesClient-1.0.020761-stable-linux-x64-focal-cache'',
      Warning ''Cache service responded with 429'',
      AddPath ''/tmp/StaticSitesClient-1.0.020761-stable'',
      Exec ''StaticSitesClient'' [''version''],
      Debug ''1.0.020761''])"
  by (simp add: eval_simps host_defs)

lemma runner_run:
  "Install runner inputs0 =
    (Returned \<lparr>name = ''StaticSitesClient'', result_version = Some ''stable'',
               path = ''/tmp/StaticSitesClient-1.0.020761-stable'',
               restoredFromCache = False,
               downloadUrl = Some ''https://example.org/linux/StaticSitesClient''\<rparr>,
     [Info ''Fetching release metadata for version: stable'',
      Fetch ''https://swalocaldeploy.azureedge.net/downloads/versions.json'',
      Info ''Version to install: 1.0.020761-stable (target directory: /tmp/StaticSitesClient-1.0.020761-stable)'',
      Exec ''lsb_release'' [''-cs''],
      Info ''Cache key: StaticSitesClient-1.0.020761-stable-linux-x64-focal-cache'',
      RestoreCache [''/tmp/StaticSitesClient-1.0.020761-stable'']
        ''StaticSitesClient-1.0.020761-stable-linux-x64-focal-cache'',
      Warning ''Cache for StaticSitesClient not found'',
      Download ''https://example.org/linux/StaticSitesClient'' ''/tmp/u1/StaticSitesClient'',
      Info ''Downloaded from https://example.org/linux/StaticSitesClient to /tmp/u1/StaticSitesClient'',
      MkdirP ''/tmp/StaticSitesClient-1.0.020761-stable'',
      Cp ''/tmp/u1/StaticSitesClient'' ''/tmp/StaticSitesClient-1.0.020761-stable/StaticSitesClient'',
      Chmod ''/tmp/StaticSitesClient-1.0.020761-stable/StaticSitesClient'' mode_0755,
      RmRF ''/tmp/u1/StaticSitesClient'',
      Info ''Extracted StaticSitesClient to /tmp/StaticSitesClient-1.0.020761-stable'',
      SaveCache [''/tmp/StaticSitesClient-1.0.020761-stable'']
        ''StaticSitesClient-1.0.020761-stable-linux-x64-focal-cache'',
      Info ''StaticSitesClient saved to cache (cacheId: 7, cacheKey: StaticSitesClient-1.0.020761-stable-linux-x64-focal-cache)'',
      AddPath ''/tmp/StaticSitesClient-1.0.020761-stable'',
      Exec ''StaticSitesClient'' [''version''],
      Debug ''1.0.020761''])"
  by code_simp

lemma slash_runner_run:
  "Install slash_runner inputs0 =
    (Returned \<lparr>name = ''StaticSitesClient'', result_version = Some ''stable'',
               path = ''/tmp/StaticSitesClient-1.0.020761-stable'',
               restoredFromCache = False,
               downloadUrl = Some ''https://example.org/linux/''\<rparr>,
     [Info ''Fetching release metadata for version: stable'',
      Fetch ''https://swalocaldeploy.azureedge.net/downloads/versions.json'',
      Info ''Version to install: 1.0.020761-stable (target directory: /tmp/StaticSitesClient-1.0.020761-stable)'',
      Exec ''lsb_release'' [''-cs''],
      Info ''Cache key: StaticSitesClient-1.0.020761-stable-linux-x64-focal-cache'',
      RestoreCache [''/tmp/StaticSitesClient-1.0.020761-stable'']
        ''StaticSitesClient-1.0.020761-stable-linux-x64-focal-cache'',
      Warning ''Cache for StaticSitesClient not found'',
      Download ''https://example.org/linux/'' ''/tmp/u1'',
      Info ''Downloaded from https://example.org/linux/ to /tmp/u1'',
      MkdirP ''/tmp/StaticSitesClient-1.0.020761-stable'',
      Cp ''/tmp/u1'' ''/tmp/StaticSitesClient-1.0.020761-stable'',
      Chmod ''/tmp/StaticSitesClient-1.0.020761-stable'' mode_0755,
      RmRF ''/tmp/u1'',
      Info ''Extracted  to /tmp/StaticSitesClient-1.0.020761-stable'',
      SaveCache [''/tmp/StaticSitesClient-1.0.020761-stable'']
        ''StaticSitesClient-1.0.020761-stable-linux-x64-focal-cache'',
      Info ''StaticSitesClient saved to cache (cacheId: 7, cacheKey: StaticSitesClient-1.0.020761-stable-linux-x64-focal-cache)'',
      AddPath ''/tmp/StaticSitesClient-1.0.020761-stable'',
      Exec ''StaticSitesClient'' [''version''],
      Debug ''1.0.020761''])"
  by code_simp

section \<open>The claims\<close>

text \<open>
  C1, at the input where the code leaves it. The specifier \<^verbatim>\<open>2023-01-01\<close> is no dotted
  triple, and the second release of the document has it as its \<^verbatim>\<open>version\<close>. The
  expression of line 155 has unescaped dots, which match the hyphens, so the test
  succeeds, the release is looked for by \<^verbatim>\<open>buildId\<close>, and none is found.
\<close>

theorem date_specifier_is_matched_by_buildId:
  "\<not> dotted_triple_test ''2023-01-01''
   \<and> version_pattern_test ''2023-01-01''
   \<and> find_entry version ''2023-01-01'' [Some entry0, Some dated_entry] = Some dated_entry
   \<and> find_entry buildId ''2023-01-01'' [Some entry0, Some dated_entry] = None
   \<and> fetch_json dated_runner TOOL_RELEASE_METADATA = Inr (Array [Some entry0, Some dated_entry])
   \<and> fst (getReleaseMetadata dated_runner ''2023-01-01'') = Returned None"
  by (simp add: eval_simps dotted_triple_test_def host_defs)

text \<open>
  C2, at the input where the code leaves it. No release of the document is named
  \<^verbatim>\<open>nightly\<close>: \<open>getReleaseMetadata\<close> returns \<^verbatim>\<open>undefined\<close> to \<open>Install\<close>, which throws the
  \<^verbatim>\<open>TypeError\<close> of reading \<^verbatim>\<open>buildId\<close> of it at line 24. \<^verbatim>\<open>core.setFailed\<close> is not called,
  as it is at lines 161 and 162 for a document that is no array.
\<close>

theorem no_match_returns_undefined:
  "fetch_json runner TOOL_RELEASE_METADATA = Inr (Array [Some entry0])
   \<and> find_entry version ''nightly'' [Some entry0] = None
   \<and> fst (getReleaseMetadata runner ''nightly'') = Returned None
   \<and> Install runner nightly_inputs =
       (Thrown (JsError ''Cannot read properties of undefined (reading buildId)''),
        [Info ''Fetching release metadata for version: nightly'',
         Fetch ''https://swalocaldeploy.azureedge.net/downloads/versions.json''])"
  by (simp add: eval_simps host_defs)

text \<open>
  C3, as the code has it. For a run of \<open>Install\<close> that reaches the cache restore: after a
  hit no \<^verbatim>\<open>toolCache.downloadTool\<close> call occurs, and a returned result has
  \<open>restoredFromCache\<close> set and no \<open>downloadUrl\<close>. After a miss or a thrown error the error's
  message is logged as a warning and the run goes on exactly as after a miss; a download
  call occurs whenever \<open>getDownloadUrl\<close> returns (it halts the run on an unsupported
  architecture or platform, and throws on a missing or malformed address); and a returned
  result has \<open>restoredFromCache\<close> unset and \<open>downloadUrl\<close> set to the address downloaded.
\<close>

theorem restore_decides_download:
  assumes "RestoreCache p k \<in> set (snd (Install h i))"
  shows "((\<exists>hk. restoreCache h p k = Inr (Some hk)) \<longrightarrow>
            \<not> list_ex is_download (snd (Install h i))
          \<and> (\<forall>res. fst (Install h i) = Returned res \<longrightarrow>
                restoredFromCache res \<and> downloadUrl res = None))
     \<and> ((\<forall>hk. restoreCache h p k \<noteq> Inr (Some hk)) \<longrightarrow>
            (\<forall>m. restoreCache h p k = Inl (JsError m) \<longrightarrow> Warning m \<in> set (snd (Install h i)))
          \<and> fst (Install h i) = fst (Install (h\<lparr>restoreCache := (\<lambda>_ _. Inr None)\<rparr>) i)
          \<and> (\<forall>rm u f. fst (getReleaseMetadata h (inputs_version i)) = Returned (Some rm)
                    \<and> fst (getDownloadUrl h rm) = Returned (u, f)
                \<longrightarrow> (\<exists>d. Download (href u) d \<in> set (snd (Install h i))))
          \<and> (\<forall>res. fst (Install h i) = Returned res \<longrightarrow>
                \<not> restoredFromCache res
              \<and> (\<exists>u d. downloadUrl res = Some u \<and> Download u d \<in> set (snd (Install h i)))))"
proof (intro conjI impI allI)
  assume "\<exists>hk. restoreCache h p k = Inr (Some hk)"
  then obtain hk where hk: "restoreCache h p k = Inr (Some hk)" ..
  note hit = hit_no_download [OF assms hk]
  show "\<not> list_ex is_download (snd (Install h i))"
    using hit by (rule conjunct1)
  fix res
  assume "fst (Install h i) = Returned res"
  with hit show "restoredFromCache res" and "downloadUrl res = None"
    by blast+
next
  fix m
  assume "restoreCache h p k = Inl (JsError m)"
  with restore_error_warns [OF assms] show "Warning m \<in> set (snd (Install h i))"
    by blast
next
  assume "\<forall>hk. restoreCache h p k \<noteq> Inr (Some hk)"
  then show "fst (Install h i) = fst (Install (h\<lparr>restoreCache := (\<lambda>_ _. Inr None)\<rparr>) i)"
    by (rule restore_error_is_miss [OF assms])
next
  fix rm u f
  assume "\<forall>hk. restoreCache h p k \<noteq> Inr (Some hk)"
    and "fst (getReleaseMetadata h (inputs_version i)) = Returned (Some rm)
       \<and> fst (getDownloadUrl h rm) = Returned (u, f)"
  then show "\<exists>d. Download (href u) d \<in> set (snd (Install h i))"
    using miss_downloads [OF assms] by blast
next
  fix res
  assume n: "\<forall>hk. restoreCache h p k \<noteq> Inr (Some hk)" and r: "fst (Install h i) = Returned res"
  note miss = miss_result [OF assms n r]
  show "\<not> restoredFromCache res"
    using miss by (rule conjunct1)
  show "\<exists>u d. downloadUrl res = Some u \<and> Download u d \<in> set (snd (Install h i))"
    using miss by (rule conjunct2)
qed

theorem restore_decides_download_witness:
  "RestoreCache [''/tmp/StaticSitesClient-1.0.020761-stable'']
        ''StaticSitesClient-1.0.020761-stable-linux-x64-focal-cache''
        \<in> set (snd (Install throwing_cache_runner inputs0))
   \<and> restoreCache throwing_cache_runner [''/tmp/StaticSitesClient-1.0.020761-stable'']
        ''StaticSitesClient-1.0.020761-stable-linux-x64-focal-cache''
        = Inl (JsError ''Cache service responded with 503'')
   \<and> Warning ''Cache service responded with 503'' \<in> set (snd (Install throwing_cache_runner inputs0))
   \<and> fst (Install throwing_cache_runner inputs0)
        = fst (Install (throwing_cache_runner\<lparr>restoreCache := (\<lambda>_ _. Inr None)\<rparr>) inputs0)
   \<and> fst (Install throwing_cache_runner inputs0) =
        Returned \<lparr>name = ''StaticSitesClient'', result_version = Some ''stable'',
                  path = ''/tmp/StaticSitesClient-1.0.020761-stable'',
                  restoredFromCache = False,
                  downloadUrl = Some ''https://example.org/linux/StaticSitesClient''\<rparr>
   \<and> Download ''https://example.org/linux/StaticSitesClient'' ''/tmp/u1/StaticSitesClient''
        \<in> set (snd (Install throwing_cache_runner inputs0))
   \<and> RestoreCache [''/tmp/StaticSitesClient-1.0.020761-stable'']
        ''StaticSitesClient-1.0.020761-stable-linux-x64-focal-cache''
        \<in> set (snd (Install hit_runner inputs0))
   \<and> restoreCache hit_runner [''/tmp/StaticSitesClient-1.0.020761-stable'']
        ''StaticSitesClient-1.0.020761-stable-linux-x64-focal-cache''
        = Inr (Some ''StaticSitesClient-1.0.020761-stable-linux-x64-focal-cache'')
   \<and> \<not> list_ex is_download (snd (Install hit_runner inputs0))
   \<and> fst (Install hit_runner inputs0) =
        Returned \<lparr>name = ''StaticSitesClient'', result_version = Some ''stable'',
                  path = ''/tmp/StaticSitesClient-1.0.020761-stable'',
                  restoredFromCache = True, downloadUrl = None\<rparr>"
proof -
  let ?p = "[''/tmp/StaticSitesClient-1.0.020761-stable'']"
  let ?k = "''StaticSitesClient-1.0.020761-stable-linux-x64-focal-cache''"
  have r: "RestoreCache ?p ?k \<in> set (snd (Install throwing_cache_runner inputs0))"
    by (simp add: throwing_cache_runner_run)
  have e: "restoreCache throwing_cache_runner ?p ?k = Inl (JsError ''Cache service responded with 503'')"
    by (simp add: host_defs)
  then have n: "\<forall>hk. restoreCache throwing_cache_runner ?p ?k \<noteq> Inr (Some hk)"
    by simp
  have r': "RestoreCache ?p ?k \<in> set (snd (Install hit_runner inputs0))"
    by (simp add: hit_runner_run)
  have e': "restoreCache hit_runner ?p ?k = Inr (Some ?k)"
    by (simp add: host_defs)
  from restore_decides_download [OF r] n e
  have "Warning ''Cache service responded with 503'' \<in> set (snd (Install throwing_cache_runner inputs0))
      \<and> fst (Install throwing_cache_runner inputs0)
        = fst (Install (throwing_cache_runner\<lparr>restoreCache := (\<lambda>_ _. Inr None)\<rparr>) inputs0)"
    by blast
  moreover from restore_decides_download [OF r'] e'
  have "\<not> list_ex is_download (snd (Install hit_runner inputs0))"
    by blast
  ultimately show ?thesis
    using r e r' e' by (simp add: throwing_cache_runner_run hit_runner_run)
qed

text \<open>
  C3 as stated fails: on arm64 the restore misses and no download call follows, because
  \<open>getDownloadUrl\<close> ends the process first.
\<close>

theorem miss_without_download_counterexample:
  "restoreCache arm_runner [''/tmp/StaticSitesClient-1.0.020761-stable'']
        ''StaticSitesClient-1.0.020761-stable-linux-arm64-focal-cache'' = Inr None
   \<and> RestoreCache [''/tmp/StaticSitesClient-1.0.020761-stable'']
        ''StaticSitesClient-1.0.020761-stable-linux-arm64-focal-cache''
        \<in> set (snd (Install arm_runner inputs0))
   \<and> \<not> list_ex is_download (snd (Install arm_runner inputs0))
   \<and> fst (Install arm_runner inputs0) = Exited"
  by (simp add: arm_runner_run) (simp add: host_defs)

text \<open>
  C4, as the code has it. On an architecture other than \<^verbatim>\<open>x64\<close> no run of \<open>Install\<close> ever
  calls \<^verbatim>\<open>toolCache.downloadTool\<close>; every such run whose cache restore misses or throws
  ends in \<^verbatim>\<open>process.exit()\<close> right after
  \<^verbatim>\<open>core.setFailed('Unsupported architecture: ...')\<close>; and every such run whose cache
  restore hits is not halted: it does not end in \<^verbatim>\<open>process.exit()\<close> and never calls
  \<^verbatim>\<open>core.setFailed\<close>. The architecture is checked in \<open>getDownloadUrl\<close> only, which a run
  reaches after a cache miss.
\<close>

theorem unsupported_arch_never_downloads:
  assumes "arch h \<noteq> ''x64''"
  shows "\<not> list_ex is_download (snd (Install h i))
    \<and> (\<forall>p k. RestoreCache p k \<in> set (snd (Install h i))
              \<and> (\<forall>hk. restoreCache h p k \<noteq> Inr (Some hk))
          \<longrightarrow> fst (Install h i) = Exited
              \<and> last (snd (Install h i)) = SetFailed (''Unsupported architecture: '' @ arch h))
    \<and> (\<forall>p k hk. RestoreCache p k \<in> set (snd (Install h i))
              \<and> restoreCache h p k = Inr (Some hk)
          \<longrightarrow> fst (Install h i) \<noteq> Exited
              \<and> \<not> list_ex is_setFailed (snd (Install h i)))"
proof -
  have "\<not> list_ex is_download (snd (Install h i))"
    using quiet_download_unsupported [OF assms, of i] by (simp add: quiet_def)
  moreover have "fst (Install h i) = Exited
      \<and> last (snd (Install h i)) = SetFailed (''Unsupported architecture: '' @ arch h)"
    if "RestoreCache p k \<in> set (snd (Install h i))" "\<forall>hk. restoreCache h p k \<noteq> Inr (Some hk)"
    for p k
    using unsupported_arch_halts [OF assms that(1)] that(2) by (simp add: was_hit_iff)
  moreover have "fst (Install h i) \<noteq> Exited \<and> \<not> list_ex is_setFailed (snd (Install h i))"
    if "RestoreCache p k \<in> set (snd (Install h i))" "restoreCache h p k = Inr (Some hk)"
    for p k hk
    using that by (rule hit_not_halted)
  ultimately show ?thesis by blast
qed

theorem unsupported_arch_never_downloads_witness:
  "arch arm_runner \<noteq> ''x64''
   \<and> \<not> list_ex is_download (snd (Install arm_runner inputs0))
   \<and> RestoreCache [''/tmp/StaticSitesClient-1.0.020761-stable'']
        ''StaticSitesClient-1.0.020761-stable-linux-arm64-focal-cache''
        \<in> set (snd (Install arm_runner inputs0))
   \<and> fst (Install arm_runner inputs0) = Exited
   \<and> last (snd (Install arm_runner inputs0)) = SetFailed ''Unsupported architecture: arm64''
   \<and> arch arm_hit_runner \<noteq> ''x64''
   \<and> RestoreCache [''/tmp/StaticSitesClient-1.0.020761-stable'']
        ''StaticSitesClient-1.0.020761-stable-linux-arm64-focal-cache''
        \<in> set (snd (Install arm_hit_runner inputs0))
   \<and> restoreCache arm_hit_runner [''/tmp/StaticSitesClient-1.0.020761-stable'']
        ''StaticSitesClient-1.0.020761-stable-linux-arm64-focal-cache''
        = Inr (Some ''StaticSitesClient-1.0.020761-stable-linux-arm64-focal-cache'')
   \<and> fst (Install arm_hit_runner inputs0) \<noteq> Exited
   \<and> \<not> list_ex is_setFailed (snd (Install arm_hit_runner inputs0))"
proof -
  have a: "arch arm_runner \<noteq> ''x64''"
    by (simp add: host_defs)
  have r: "RestoreCache [''/tmp/StaticSitesClient-1.0.020761-stable'']
        ''StaticSitesClient-1.0.020761-stable-linux-arm64-focal-cache''
        \<in> set (snd (Install arm_runner inputs0))"
    by (simp add: arm_runner_run)
  have m: "\<forall>hk. restoreCache arm_runner [''/tmp/StaticSitesClient-1.0.020761-stable'']
        ''StaticSitesClient-1.0.020761-stable-linux-arm64-focal-cache'' \<noteq> Inr (Some hk)"
    by (simp add: host_defs)
  from unsupported_arch_never_downloads [OF a, of inputs0] r m
  have miss: "\<not> list_ex is_download (snd (Install arm_runner inputs0))
      \<and> fst (Install arm_runner inputs0) = Exited
      \<and> last (snd (Install arm_runner inputs0)) = SetFailed (''Unsupported architecture: '' @ arch arm_runner)"
    by blast
  have a': "arch arm_hit_runner \<noteq> ''x64''"
    by (simp add: host_defs)
  have r': "RestoreCache [''/tmp/StaticSitesClient-1.0.020761-stable'']
        ''StaticSitesClient-1.0.020761-stable-linux-arm64-focal-cache''
        \<in> set (snd (Install arm_hit_runner inputs0))"
    by (simp add: eval_simps host_defs)
  have c': "restoreCache arm_hit_runner [''/tmp/StaticSitesClient-1.0.020761-stable'']
        ''StaticSitesClient-1.0.020761-stable-linux-arm64-focal-cache''
        = Inr (Some ''StaticSitesClient-1.0.020761-stable-linux-arm64-focal-cache'')"
    by (simp add: host_defs)
  from unsupported_arch_never_downloads [OF a', of inputs0] r' c'
  have hit: "fst (Install arm_hit_runner inputs0) \<noteq> Exited
      \<and> \<not> list_ex is_setFailed (snd (Install arm_hit_runner inputs0))"
    by blast
  from miss a r a' r' c' hit show ?thesis by (simp add: host_defs)
qed

text \<open>
  C4 as stated fails: on arm64 with the tool in the cache the run does not halt, it
  returns its result and reports no failure.
\<close>

theorem unsupported_arch_halts_counterexample:
  "arch arm_hit_runner \<noteq> ''x64''
   \<and> fst (Install arm_hit_runner inputs0) =
       Returned \<lparr>name = ''StaticSitesClient'', result_version = Some ''stable'',
                 path = ''/tmp/StaticSitesClient-1.0.020761-stable'',
                 restoredFromCache = True, downloadUrl = None\<rparr>
   \<and> \<not> list_ex is_setFailed (snd (Install arm_hit_runner inputs0))"
  by (simp add: eval_simps host_defs)

text \<open>
  C5. \<open>getCacheKey\<close> returns the key in the format of the specification, built from the
  tool name, the version marker, \<^verbatim>\<open>process.platform\<close>, \<^verbatim>\<open>process.arch\<close> and, on Linux
  only, the trimmed output of \<^verbatim>\<open>lsb_release -cs\<close>, with \<^verbatim>\<open>-cache\<close> last (on Linux it throws
  when that command fails). Two calls with the same inputs return the same key, and two
  calls whose inputs differ in exactly one place return different keys. The tool name is
  a constant of the code; in the format, another tool name gives another key.
\<close>

theorem cache_key_is_a_function_of_its_inputs:
  "fst (getCacheKey h v) =
     (if platform h = ''linux''
      then (case getExecOutput h ''lsb_release'' [''-cs''] of
              Inl e \<Rightarrow> Thrown e
            | Inr out \<Rightarrow> Returned (cache_key_format TOOL_NAME v ''linux'' (arch h) (Some (trim out))))
      else Returned (cache_key_format TOOL_NAME v (platform h) (arch h) None))
   \<and> (\<forall>key key'. fst (getCacheKey h v) = Returned key \<and> fst (getCacheKey h' v') = Returned key'
         \<longrightarrow> (key_inputs h v = key_inputs h' v' \<longrightarrow> key = key')
           \<and> (differing (key_inputs h v) (key_inputs h' v') = 1 \<longrightarrow> key \<noteq> key'))
   \<and> (\<forall>t t' os cpu c. t \<noteq> t' \<longrightarrow> cache_key_format t v os cpu c \<noteq> cache_key_format t' v os cpu c)"
proof (intro conjI allI impI)
  fix t t' os cpu c
  assume "t \<noteq> (t' :: string)"
  then show "cache_key_format t v os cpu c \<noteq> cache_key_format t' v os cpu c"
    by (simp add: cache_key_format_def)
next
  show "fst (getCacheKey h v) =
     (if platform h = ''linux''
      then (case getExecOutput h ''lsb_release'' [''-cs''] of
              Inl e \<Rightarrow> Thrown e
            | Inr out \<Rightarrow> Returned (cache_key_format TOOL_NAME v ''linux'' (arch h) (Some (trim out))))
      else Returned (cache_key_format TOOL_NAME v (platform h) (arch h) None))"
    by (rule fst_getCacheKey)
next
  fix key key'
  assume r: "fst (getCacheKey h v) = Returned key \<and> fst (getCacheKey h' v') = Returned key'"
  then have a: "fst (getCacheKey h v) = Returned key" and b: "fst (getCacheKey h' v') = Returned key'"
    by simp_all
  {
    assume "key_inputs h v = key_inputs h' v'"
    then show "key = key'" using same_inputs_same_key [OF a b] by simp
  }
  {
    assume "differing (key_inputs h v) (key_inputs h' v') = 1"
    then show "key \<noteq> key'" using one_input_differs [OF a b] by simp
  }
qed

theorem cache_key_is_a_function_of_its_inputs_witness:
  "fst (getCacheKey runner ''1.0.020761-stable'')
     = Returned ''StaticSitesClient-1.0.020761-stable-linux-x64-focal-cache''
   \<and> fst (getCacheKey arm_runner ''1.0.020761-stable'')
     = Returned ''StaticSitesClient-1.0.020761-stable-linux-arm64-focal-cache''
   \<and> differing (key_inputs runner ''1.0.020761-stable'') (key_inputs arm_runner ''1.0.020761-stable'') = 1
   \<and> fst (getCacheKey hit_runner ''1.0.020761-stable'')
     = Returned ''StaticSitesClient-1.0.020761-stable-linux-x64-focal-cache''
   \<and> key_inputs runner ''1.0.020761-stable'' = key_inputs hit_runner ''1.0.020761-stable''
   \<and> ''StaticSitesClient-1.0.020761-stable-linux-x64-focal-cache''
       \<noteq> ''StaticSitesClient-1.0.020761-stable-linux-arm64-focal-cache''"
proof -
  have a: "fst (getCacheKey runner ''1.0.020761-stable'')
     = Returned ''StaticSitesClient-1.0.020761-stable-linux-x64-focal-cache''"
    by (simp add: eval_simps host_defs)
  have b: "fst (getCacheKey arm_runner ''1.0.020761-stable'')
     = Returned ''StaticSitesClient-1.0.020761-stable-linux-arm64-focal-cache''"
    by (simp add: eval_simps host_defs)
  have c: "fst (getCacheKey hit_runner ''1.0.020761-stable'')
     = Returned ''StaticSitesClient-1.0.020761-stable-linux-x64-focal-cache''"
    by (simp add: eval_simps host_defs)
  have d: "differing (key_inputs runner ''1.0.020761-stable'') (key_inputs arm_runner ''1.0.020761-stable'') = 1"
    by (simp add: differing_def key_inputs_def codename_of_def host_defs)
  have e: "key_inputs runner ''1.0.020761-stable'' = key_inputs hit_runner ''1.0.020761-stable''"
    by (simp add: key_inputs_def codename_of_def host_defs)
  from cache_key_is_a_function_of_its_inputs [of runner "''1.0.020761-stable''" arm_runner
      "''1.0.020761-stable''"] a b d
  have "''StaticSitesClient-1.0.020761-stable-linux-x64-focal-cache''
       \<noteq> ''StaticSitesClient-1.0.020761-stable-linux-arm64-focal-cache''"
    by blast
  with a b c d e show ?thesis by blast
qed

text \<open>
  C6, as the code has it. When the cache restore reports a hit, whatever the operating
  system and the architecture are: \<^verbatim>\<open>core.setFailed\<close> is never called and the run does not
  end in \<^verbatim>\<open>process.exit()\<close>; when the version query of line 42 succeeds, \<open>Install\<close> returns
  a result with \<open>restoredFromCache\<close> set, and after the restore the run only adds the path
  and asks the tool for its version; when the version query throws, \<open>Install\<close> rejects
  with what was thrown.
\<close>

theorem cache_hit_skips_platform_checks:
  assumes "RestoreCache p k \<in> set (snd (Install h i))" and "restoreCache h p k = Inr (Some hk)"
  shows "(\<forall>out. getExecOutput h TOOL_NAME TOOL_VERSION_ARG = Inr out
        \<longrightarrow> (\<exists>res. fst (Install h i) = Returned res \<and> restoredFromCache res
                  \<and> downloadUrl res = None)
          \<and> (\<exists>pre. snd (Install h i) =
                pre @ [RestoreCache p k, Info (TOOL_NAME @ '' restored from cache: '' @ hk),
                       AddPath (toPlatformPath h (hd p)), Exec TOOL_NAME TOOL_VERSION_ARG,
                       Debug (trim out)]))
    \<and> (\<forall>e. getExecOutput h TOOL_NAME TOOL_VERSION_ARG = Inl e
        \<longrightarrow> fst (Install h i) = Thrown e)
    \<and> \<not> list_ex is_setFailed (snd (Install h i))
    \<and> fst (Install h i) \<noteq> Exited"
proof -
  from assms obtain rm pre where
    p: "p = [pathToInstall_of h rm]" and
    "fst (getReleaseMetadata h (inputs_version i)) = Returned (Some rm)" and
    I: "Install h i =
       prepend (pre @ [RestoreCache p k, Info (TOOL_NAME @ '' restored from cache: '' @ hk)])
         (install_finish h rm (pathToInstall_of h rm) True None)"
    and q: "\<not> list_ex is_download pre" "\<not> list_ex is_setFailed pre" "\<not> list_ex is_chmod pre"
    by (rule hit_finishes)
  have "(\<exists>res. fst (Install h i) = Returned res \<and> restoredFromCache res \<and> downloadUrl res = None)
      \<and> (\<exists>pre. snd (Install h i) =
            pre @ [RestoreCache p k, Info (TOOL_NAME @ '' restored from cache: '' @ hk),
                   AddPath (toPlatformPath h (hd p)), Exec TOOL_NAME TOOL_VERSION_ARG,
                   Debug (trim out)])"
    if "getExecOutput h TOOL_NAME TOOL_VERSION_ARG = Inr out" for out
    unfolding I using that p by (simp add: install_finish_cases)
  moreover have "fst (Install h i) = Thrown e"
    if "getExecOutput h TOOL_NAME TOOL_VERSION_ARG = Inl e" for e
    unfolding I using that by (simp add: install_finish_cases)
  moreover have "fst (Install h i) \<noteq> Exited \<and> \<not> list_ex is_setFailed (snd (Install h i))"
    using assms by (rule hit_not_halted)
  ultimately show ?thesis by blast
qed

theorem cache_hit_skips_platform_checks_witness:
  "platform bsd_hit_runner = ''freebsd'' \<and> arch bsd_hit_runner = ''arm64''
   \<and> RestoreCache [''/tmp/StaticSitesClient-1.0.020761-stable'']
        ''StaticSitesClient-1.0.020761-stable-freebsd-arm64-cache''
        \<in> set (snd (Install bsd_hit_runner inputs0))
   \<and> restoreCache bsd_hit_runner [''/tmp/StaticSitesClient-1.0.020761-stable'']
        ''StaticSitesClient-1.0.020761-stable-freebsd-arm64-cache''
        = Inr (Some ''StaticSitesClient-1.0.020761-stable-freebsd-arm64-cache'')
   \<and> getExecOutput bsd_hit_runner TOOL_NAME TOOL_VERSION_ARG = Inr ''1.0.020761''
   \<and> (\<exists>res. fst (Install bsd_hit_runner inputs0) = Returned res \<and> restoredFromCache res
          \<and> downloadUrl res = None)
   \<and> \<not> list_ex is_setFailed (snd (Install bsd_hit_runner inputs0))
   \<and> RestoreCache [''/tmp/StaticSitesClient-1.0.020761-stable'']
        ''StaticSitesClient-1.0.020761-stable-linux-arm64-focal-cache''
        \<in> set (snd (Install broken_tool_runner inputs0))
   \<and> restoreCache broken_tool_runner [''/tmp/StaticSitesClient-1.0.020761-stable'']
        ''StaticSitesClient-1.0.020761-stable-linux-arm64-focal-cache''
        = Inr (Some ''StaticSitesClient-1.0.020761-stable-linux-arm64-focal-cache'')
   \<and> getExecOutput broken_tool_runner TOOL_NAME TOOL_VERSION_ARG
        = Inl (JsError ''Exec format error'')
   \<and> fst (Install broken_tool_runner inputs0) = Thrown (JsError ''Exec format error'')
   \<and> \<not> list_ex is_setFailed (snd (Install broken_tool_runner inputs0))"
proof -
  have r: "RestoreCache [''/tmp/StaticSitesClient-1.0.020761-stable'']
        ''StaticSitesClient-1.0.020761-stable-freebsd-arm64-cache''
        \<in> set (snd (Install bsd_hit_runner inputs0))"
    by (simp add: bsd_hit_runner_run)
  have c: "restoreCache bsd_hit_runner [''/tmp/StaticSitesClient-1.0.020761-stable'']
        ''StaticSitesClient-1.0.020761-stable-freebsd-arm64-cache''
        = Inr (Some ''StaticSitesClient-1.0.020761-stable-freebsd-arm64-cache'')"
    by (simp add: host_defs)
  have e: "getExecOutput bsd_hit_runner TOOL_NAME TOOL_VERSION_ARG = Inr ''1.0.020761''"
    by (simp add: host_defs TOOL_NAME_def)
  have pa: "platform bsd_hit_runner = ''freebsd'' \<and> arch bsd_hit_runner = ''arm64''"
    by (simp add: host_defs)
  from cache_hit_skips_platform_checks [OF r c] e
  have ok: "(\<exists>res. fst (Install bsd_hit_runner inputs0) = Returned res \<and> restoredFromCache res
          \<and> downloadUrl res = None)
      \<and> \<not> list_ex is_setFailed (snd (Install bsd_hit_runner inputs0))"
    by blast
  have r': "RestoreCache [''/tmp/StaticSitesClient-1.0.020761-stable'']
        ''StaticSitesClient-1.0.020761-stable-linux-arm64-focal-cache''
        \<in> set (snd (Install broken_tool_runner inputs0))"
    by (simp add: eval_simps host_defs)
  have c': "restoreCache broken_tool_runner [''/tmp/StaticSitesClient-1.0.020761-stable'']
        ''StaticSitesClient-1.0.020761-stable-linux-arm64-focal-cache''
        = Inr (Some ''StaticSitesClient-1.0.020761-stable-linux-arm64-focal-cache'')"
    by (simp add: host_defs)
  have e': "getExecOutput broken_tool_runner TOOL_NAME TOOL_VERSION_ARG
        = Inl (JsError ''Exec format error'')"
    by (simp add: host_defs TOOL_NAME_def)
  from cache_hit_skips_platform_checks [OF r' c'] e'
  have thrown: "fst (Install broken_tool_runner inputs0) = Thrown (JsError ''Exec format error'')
      \<and> \<not> list_ex is_setFailed (snd (Install broken_tool_runner inputs0))"
    by blast
  from pa r c e ok r' c' e' thrown show ?thesis
    by blast
qed

text \<open>
  C6 as stated fails: a cache hit alone does not make the run succeed. Here the restored
  tool does not start, the version query throws and \<open>Install\<close> rejects.
\<close>

theorem cache_hit_succeeds_counterexample:
  "RestoreCache [''/tmp/StaticSitesClient-1.0.020761-stable'']
        ''StaticSitesClient-1.0.020761-stable-linux-arm64-focal-cache''
        \<in> set (snd (Install broken_tool_runner inputs0))
   \<and> restoreCache broken_tool_runner [''/tmp/StaticSitesClient-1.0.020761-stable'']
        ''StaticSitesClient-1.0.020761-stable-linux-arm64-focal-cache''
        = Inr (Some ''StaticSitesClient-1.0.020761-stable-linux-arm64-focal-cache'')
   \<and> fst (Install broken_tool_runner inputs0) = Thrown (JsError ''Exec format error'')"
  by (simp add: eval_simps host_defs)

text \<open>
  C7, at the inputs where the code leaves it. \<open>getBooleanInput\<close> hands the literal
  \<^verbatim>\<open>'true'\<close> or \<^verbatim>\<open>'false'\<close> to \<^verbatim>\<open>core.getBooleanInput\<close>, which takes it for the name of an
  input. With \<^verbatim>\<open>execute\<close> set to \<^verbatim>\<open>true\<close> and no input of the name \<^verbatim>\<open>true\<close>, and with no input
  set at all (the empty string of the source's comment), the call throws a \<^verbatim>\<open>TypeError\<close>,
  and \<open>main\<close> ends with \<^verbatim>\<open>core.setFailed\<close> before \<open>Install\<close> is called.
\<close>

theorem execute_input_throws:
  "core_getInput runner ''execute'' = ''true''
   \<and> getBooleanInput runner ''execute'' =
       (Thrown (JsError ''Input does not meet YAML 1.2 Core Schema specification: true''), [])
   \<and> core_getInput no_input_runner ''execute'' = []
   \<and> getBooleanInput no_input_runner ''execute'' =
       (Thrown (JsError ''Input does not meet YAML 1.2 Core Schema specification: false''), [])
   \<and> main runner =
       (Returned (), [SetFailed ''Input does not meet YAML 1.2 Core Schema specification: true''])"
  by (simp add: getBooleanInput_def core_getBooleanInput_def core_getInput_def main_def
      getInputs_def trim_def is_white_space_def throw_def emit_def host_defs Let_def)

text \<open>
  C8. When the run reaches \<^verbatim>\<open>cache.saveCache\<close> and the call throws an error, the error's
  message is logged as a warning and the outcome of \<open>Install\<close> is the one of the same run
  with a save that succeeds; when the version query of line 42 succeeds, \<open>Install\<close>
  returns its result.
\<close>

theorem save_failure_is_a_warning:
  assumes "SaveCache p k \<in> set (snd (Install h i))" and "saveCache h p k = Inl (JsError m)"
  shows "Warning m \<in> set (snd (Install h i))
    \<and> fst (Install h i) = fst (Install (h\<lparr>saveCache := (\<lambda>_ _. Inr c)\<rparr>) i)
    \<and> (\<forall>out. getExecOutput h TOOL_NAME TOOL_VERSION_ARG = Inr out \<longrightarrow>
          (\<exists>res. fst (Install h i) = Returned res \<and> \<not> restoredFromCache res))"
proof -
  from assms(1) obtain rm pre d where
    I: "Install h i = prepend (pre @ snd (trySaveToCache h p k))
                     (install_finish h rm (pathToInstall_of h rm) False d)"
    by (rule save_reached)
  have "Warning m \<in> set (snd (Install h i))"
    unfolding I using assms(2) by (simp add: trySaveToCache_cases)
  moreover have "fst (Install h i) = fst (Install (h\<lparr>saveCache := (\<lambda>_ _. Inr c)\<rparr>) i)"
    by (simp add: save_outcome_independent)
  moreover have "\<exists>res. fst (Install h i) = Returned res \<and> \<not> restoredFromCache res"
    if "getExecOutput h TOOL_NAME TOOL_VERSION_ARG = Inr out" for out
    unfolding I using that by (simp add: install_finish_cases)
  ultimately show ?thesis by blast
qed

theorem save_failure_is_a_warning_witness:
  "SaveCache [''/tmp/StaticSitesClient-1.0.020761-stable'']
        ''StaticSitesClient-1.0.020761-stable-linux-x64-focal-cache''
        \<in> set (snd (Install failing_save_runner inputs0))
   \<and> saveCache failing_save_runner [''/tmp/StaticSitesClient-1.0.020761-stable'']
        ''StaticSitesClient-1.0.020761-stable-linux-x64-focal-cache''
        = Inl (JsError ''Cache service responded with 429'')
   \<and> Warning ''Cache service responded with 429'' \<in> set (snd (Install failing_save_runner inputs0))
   \<and> fst (Install failing_save_runner inputs0)
        = fst (Install (failing_save_runner\<lparr>saveCache := (\<lambda>_ _. Inr 7)\<rparr>) inputs0)
   \<and> fst (Install failing_save_runner inputs0) =
        Returned \<lparr>name = ''StaticSitesClient'', result_version = Some ''stable'',
                  path = ''/tmp/StaticSitesClient-1.0.020761-stable'',
                  restoredFromCache = False,
                  downloadUrl = Some ''https://example.org/linux/StaticSitesClient''\<rparr>"
proof -
  let ?p = "[''/tmp/StaticSitesClient-1.0.020761-stable'']"
  let ?k = "''StaticSitesClient-1.0.020761-stable-linux-x64-focal-cache''"
  have s: "SaveCache ?p ?k \<in> set (snd (Install failing_save_runner inputs0))"
    by (simp add: failing_save_runner_run)
  have e: "saveCache failing_save_runner ?p ?k = Inl (JsError ''Cache service responded with 429'')"
    by (simp add: host_defs)
  from save_failure_is_a_warning [OF s e, of 7]
  have "Warning ''Cache service responded with 429'' \<in> set (snd (Install failing_save_runner inputs0))
      \<and> fst (Install failing_save_runner inputs0)
        = fst (Install (failing_save_runner\<lparr>saveCache := (\<lambda>_ _. Inr 7)\<rparr>) inputs0)"
    by blast
  with s e show ?thesis by (simp add: failing_save_runner_run)
qed

text \<open>
  What the code does for the mode in every run of \<open>Install\<close> that returns without a cache
  hit: the artifact is copied with \<^verbatim>\<open>path.join(pathToInstall, filename)\<close> as the destination
  and \<^verbatim>\<open>chmodSync\<close> sets that very path to mode \<^verbatim>\<open>0o755\<close> right after; both calls succeed,
  and no other \<^verbatim>\<open>chmodSync\<close> call occurs in the run. The mode is read, write and execute
  for the owner (bits 8, 7, 6), read and execute for the group (bits 5, 3) and for the
  others (bits 2, 0).
\<close>

lemma chmod_follows_copy:
  assumes "fst (Install h i) = Returned res" and "\<not> restoredFromCache res"
  shows "(\<exists>pre post dp f.
        snd (Install h i) = pre @ [Cp dp (path_join h [path res, f]),
                                   Chmod (path_join h [path res, f]) mode_0755] @ post
      \<and> \<not> list_ex is_chmod pre \<and> \<not> list_ex is_chmod post
      \<and> cp h dp (path_join h [path res, f]) = None
      \<and> chmodSync h (path_join h [path res, f]) mode_0755 = None)
    \<and> mode_0755 = 2 ^ 8 + 2 ^ 7 + 2 ^ 6 + 2 ^ 5 + 2 ^ 3 + 2 ^ 2 + 2 ^ 0"
proof
  show "mode_0755 = 2 ^ 8 + 2 ^ 7 + 2 ^ 6 + 2 ^ 5 + 2 ^ 3 + 2 ^ 2 + 2 ^ 0"
    by (simp add: mode_0755_def)
  from assms obtain rm key pre u dp where
    "fst (getReleaseMetadata h (inputs_version i)) = Returned (Some rm)"
    "fst (getDownloadUrl h rm) = Returned (u, filename_of (pathname u))"
    and res: "res = \<lparr>name = TOOL_NAME, result_version = version rm, path = pathToInstall_of h rm,
            restoredFromCache = False, downloadUrl = Some (href u)\<rparr>"
    and ok: "cp h dp (path_join h [pathToInstall_of h rm, filename_of (pathname u)]) = None"
      "chmodSync h (path_join h [pathToInstall_of h rm, filename_of (pathname u)]) mode_0755 = None"
    and tr: "snd (Install h i) =
       pre @ snd (tryRestoreFromCache h [pathToInstall_of h rm] key)
       @ [Download (href u) (path_join h [TEMP_DIRECTORY h, uuid h, filename_of (pathname u)]),
          Info (''Downloaded from '' @ href u @ '' to '' @ dp),
          MkdirP (pathToInstall_of h rm),
          Cp dp (path_join h [pathToInstall_of h rm, filename_of (pathname u)]),
          Chmod (path_join h [pathToInstall_of h rm, filename_of (pathname u)]) mode_0755,
          RmRF dp,
          Info (''Extracted '' @ filename_of (pathname u) @ '' to '' @ pathToInstall_of h rm)]
       @ snd (trySaveToCache h [pathToInstall_of h rm] key)
       @ snd (install_finish h rm (pathToInstall_of h rm) False (Some (href u)))"
    and q: "\<not> list_ex is_chmod pre" "\<not> list_ex is_download pre"
    by (rule fresh_run)
  let ?pti = "pathToInstall_of h rm"
  let ?f = "filename_of (pathname u)"
  let ?pre = "pre @ snd (tryRestoreFromCache h [?pti] key)
       @ [Download (href u) (path_join h [TEMP_DIRECTORY h, uuid h, ?f]),
          Info (''Downloaded from '' @ href u @ '' to '' @ dp), MkdirP ?pti]"
  let ?post = "[RmRF dp, Info (''Extracted '' @ ?f @ '' to '' @ ?pti)]
       @ snd (trySaveToCache h [?pti] key)
       @ snd (install_finish h rm ?pti False (Some (href u)))"
  have p: "path res = ?pti" by (simp add: res)
  have "snd (Install h i) = ?pre @ [Cp dp (path_join h [path res, ?f]),
                                 Chmod (path_join h [path res, ?f]) mode_0755] @ ?post"
    unfolding tr p by simp
  moreover have "\<not> list_ex is_chmod ?pre"
    using q(1) quiet_tryRestoreFromCache(3) [of h "[?pti]" key] by (simp add: quiet_def)
  moreover have "\<not> list_ex is_chmod ?post"
    using quiet_trySaveToCache(3) [of h "[?pti]" key]
      quiet_install_finish(4) [of h rm ?pti False "Some (href u)"] by (simp add: quiet_def)
  moreover note ok [folded p]
  ultimately show "\<exists>pre post dp f.
        snd (Install h i) = pre @ [Cp dp (path_join h [path res, f]),
                                   Chmod (path_join h [path res, f]) mode_0755] @ post
      \<and> \<not> list_ex is_chmod pre \<and> \<not> list_ex is_chmod post
      \<and> cp h dp (path_join h [path res, f]) = None
      \<and> chmodSync h (path_join h [path res, f]) mode_0755 = None"
    by blast
qed

text \<open>
  On the runner whose release has the address
  \<^verbatim>\<open>https://example.org/linux/StaticSitesClient\<close>, with no file before the run, that path
  is the file \<^verbatim>\<open>StaticSitesClient\<close> inside the install directory: the artifact is there
  after the run, with mode \<^verbatim>\<open>0o755\<close>.
\<close>

lemma usual_address_sets_mode:
  "files_after runner mode_0644 mode_0755 (snd (Install runner inputs0)) no_files
       ''/tmp/StaticSitesClient-1.0.020761-stable/StaticSitesClient''
     = Some (File ''https://example.org/linux/StaticSitesClient'' mode_0755)
   \<and> files_after runner mode_0644 mode_0755 (snd (Install runner inputs0)) no_files
       ''/tmp/StaticSitesClient-1.0.020761-stable'' = Some (Directory mode_0755)"
  unfolding runner_run snd_conv
  by (simp add: files_after_def file_call_def host_defs path_join_def
      basename_def below_def no_files_def mode_0644_def mode_0755_def)

text \<open>
  C9, at the input where the code leaves it. The release has the address
  \<^verbatim>\<open>https://example.org/linux/\<close>, whose path ends with a slash, so the file name of
  line 146 is the empty string and \<^verbatim>\<open>path.join(pathToInstall, filename)\<close> of line 73 is the
  install directory, which line 74 has created. The run returns without a cache hit; its
  only \<^verbatim>\<open>chmodSync\<close> call names the install directory; \<^verbatim>\<open>io.cp\<close> has copied the artifact
  into that directory, to \<^verbatim>\<open>/tmp/StaticSitesClient-1.0.020761-stable/u1\<close>, and there it
  has the mode of the download, \<^verbatim>\<open>0o644\<close>, not \<^verbatim>\<open>0o755\<close>.
\<close>

theorem empty_filename_leaves_download_mode:
  "fst (Install slash_runner inputs0) =
     Returned \<lparr>name = ''StaticSitesClient'', result_version = Some ''stable'',
               path = ''/tmp/StaticSitesClient-1.0.020761-stable'',
               restoredFromCache = False, downloadUrl = Some ''https://example.org/linux/''\<rparr>
   \<and> filter is_chmod (snd (Install slash_runner inputs0))
       = [Chmod ''/tmp/StaticSitesClient-1.0.020761-stable'' mode_0755]
   \<and> files_after slash_runner mode_0644 mode_0755 (snd (Install slash_runner inputs0)) no_files
       ''/tmp/StaticSitesClient-1.0.020761-stable'' = Some (Directory mode_0755)
   \<and> files_after slash_runner mode_0644 mode_0755 (snd (Install slash_runner inputs0)) no_files
       ''/tmp/StaticSitesClient-1.0.020761-stable/u1''
       = Some (File ''https://example.org/linux/'' mode_0644)
   \<and> mode_0644 \<noteq> mode_0755"
  unfolding slash_runner_run fst_conv snd_conv
  by (simp add: files_after_def file_call_def host_defs path_join_def
      basename_def below_def no_files_def mode_0644_def mode_0755_def)

text \<open>
  C10, as the code has it. In every run of \<open>Install\<close> that returns without a cache hit,
  the file name is the text after the last slash of the path of the download address
  (and the empty string when that path contains no slash); it is empty when the path
  ends with a slash. \<^verbatim>\<open>io.cp\<close>, and \<^verbatim>\<open>chmodSync\<close> after it, are called with
  \<^verbatim>\<open>path.join(pathToInstall, filename)\<close> as the destination, right after \<^verbatim>\<open>io.mkdirP\<close> was
  called on the install directory; with an empty file name that destination is the
  install directory itself.
\<close>

theorem filename_is_text_after_last_slash:
  assumes "fst (Install h i) = Returned res" and "\<not> restoredFromCache res"
  shows "\<exists>rm u dp pre post.
      fst (getReleaseMetadata h (inputs_version i)) = Returned (Some rm)
    \<and> fst (getDownloadUrl h rm) = Returned (u, filename_of (pathname u))
    \<and> downloadUrl res = Some (href u)
    \<and> filename_of (pathname u)
        = (if CHR ''/'' \<in> set (pathname u) then last (split CHR ''/'' (pathname u)) else [])
    \<and> last (split CHR ''/'' (pathname u))
        = rev (takeWhile (\<lambda>c. c \<noteq> CHR ''/'') (rev (pathname u)))
    \<and> ((\<exists>q. pathname u = q @ ''/'') \<longrightarrow> filename_of (pathname u) = [])
    \<and> snd (Install h i)
        = pre @ [MkdirP (path res),
                 Cp dp (path_join h [path res, filename_of (pathname u)]),
                 Chmod (path_join h [path res, filename_of (pathname u)]) mode_0755] @ post
    \<and> (filename_of (pathname u) = [] \<and> normalizes h \<longrightarrow> path_join h [path res, []] = path res)"
proof -
  from assms obtain rm key pre u dp where
    g: "fst (getReleaseMetadata h (inputs_version i)) = Returned (Some rm)"
    "fst (getDownloadUrl h rm) = Returned (u, filename_of (pathname u))"
    and res: "res = \<lparr>name = TOOL_NAME, result_version = version rm, path = pathToInstall_of h rm,
            restoredFromCache = False, downloadUrl = Some (href u)\<rparr>"
    and ok: "cp h dp (path_join h [pathToInstall_of h rm, filename_of (pathname u)]) = None"
      "chmodSync h (path_join h [pathToInstall_of h rm, filename_of (pathname u)]) mode_0755 = None"
    and tr: "snd (Install h i) =
       pre @ snd (tryRestoreFromCache h [pathToInstall_of h rm] key)
       @ [Download (href u) (path_join h [TEMP_DIRECTORY h, uuid h, filename_of (pathname u)]),
          Info (''Downloaded from '' @ href u @ '' to '' @ dp),
          MkdirP (pathToInstall_of h rm),
          Cp dp (path_join h [pathToInstall_of h rm, filename_of (pathname u)]),
          Chmod (path_join h [pathToInstall_of h rm, filename_of (pathname u)]) mode_0755,
          RmRF dp,
          Info (''Extracted '' @ filename_of (pathname u) @ '' to '' @ pathToInstall_of h rm)]
       @ snd (trySaveToCache h [pathToInstall_of h rm] key)
       @ snd (install_finish h rm (pathToInstall_of h rm) False (Some (href u)))"
    and q: "\<not> list_ex is_chmod pre" "\<not> list_ex is_download pre"
    by (rule fresh_run)
  let ?pti = "pathToInstall_of h rm"
  let ?f = "filename_of (pathname u)"
  let ?pre = "pre @ snd (tryRestoreFromCache h [?pti] key)
       @ [Download (href u) (path_join h [TEMP_DIRECTORY h, uuid h, ?f]),
          Info (''Downloaded from '' @ href u @ '' to '' @ dp)]"
  let ?post = "[RmRF dp, Info (''Extracted '' @ ?f @ '' to '' @ ?pti)]
       @ snd (trySaveToCache h [?pti] key)
       @ snd (install_finish h rm ?pti False (Some (href u)))"
  have p: "path res = ?pti" and d: "downloadUrl res = Some (href u)"
    by (simp_all add: res)
  have c: "snd (Install h i)
      = ?pre @ [MkdirP (path res), Cp dp (path_join h [path res, ?f]),
                Chmod (path_join h [path res, ?f]) mode_0755] @ ?post"
    unfolding tr p by simp
  have e: "normalizes h \<Longrightarrow> path_join h [path res, []] = path res"
    unfolding p by (rule path_join_empty_filename)
  have t: "(\<exists>q. pathname u = q @ ''/'') \<longrightarrow> ?f = []"
    using filename_of_trailing_slash by auto
  show ?thesis
    by (intro exI [of _ rm] exI [of _ u] exI [of _ dp] exI [of _ ?pre] exI [of _ ?post]
        conjI g d c t impI last_split_after)
      (simp_all add: filename_of_eq [symmetric] e)
qed

theorem filename_is_text_after_last_slash_witness:
  "fst (Install slash_runner inputs0) =
     Returned \<lparr>name = ''StaticSitesClient'', result_version = Some ''stable'',
               path = ''/tmp/StaticSitesClient-1.0.020761-stable'',
               restoredFromCache = False, downloadUrl = Some ''https://example.org/linux/''\<rparr>
   \<and> normalizes slash_runner
   \<and> fst (getDownloadUrl slash_runner slash_entry)
       = Returned (\<lparr>href = ''https://example.org/linux/'', pathname = ''/linux/''\<rparr>, [])
   \<and> (\<exists>rm u dp pre post.
        fst (getDownloadUrl slash_runner rm) = Returned (u, filename_of (pathname u))
      \<and> snd (Install slash_runner inputs0)
          = pre @ [MkdirP ''/tmp/StaticSitesClient-1.0.020761-stable'',
                   Cp dp (path_join slash_runner [''/tmp/StaticSitesClient-1.0.020761-stable'',
                                                  filename_of (pathname u)]),
                   Chmod (path_join slash_runner [''/tmp/StaticSitesClient-1.0.020761-stable'',
                                                  filename_of (pathname u)]) mode_0755] @ post)
   \<and> Cp ''/tmp/u1'' ''/tmp/StaticSitesClient-1.0.020761-stable''
        \<in> set (snd (Install slash_runner inputs0))"
proof -
  let ?res = "\<lparr>name = ''StaticSitesClient'', result_version = Some ''stable'',
               path = ''/tmp/StaticSitesClient-1.0.020761-stable'',
               restoredFromCache = False, downloadUrl = Some ''https://example.org/linux/''\<rparr>"
  have r: "fst (Install slash_runner inputs0) = Returned ?res"
    by (simp add: slash_runner_run)
  have n: "\<not> restoredFromCache ?res"
    by simp
  have z: "normalizes slash_runner"
    by (simp add: normalizes_def host_defs)
  have g: "fst (getDownloadUrl slash_runner slash_entry)
       = Returned (\<lparr>href = ''https://example.org/linux/'', pathname = ''/linux/''\<rparr>, [])"
    by (simp add: eval_simps host_defs)
  have c: "Cp ''/tmp/u1'' ''/tmp/StaticSitesClient-1.0.020761-stable''
        \<in> set (snd (Install slash_runner inputs0))"
    by (simp add: slash_runner_run)
  from filename_is_text_after_last_slash [OF r n]
  have "\<exists>rm u dp pre post.
        fst (getDownloadUrl slash_runner rm) = Returned (u, filename_of (pathname u))
      \<and> snd (Install slash_runner inputs0)
          = pre @ [MkdirP ''/tmp/StaticSitesClient-1.0.020761-stable'',
                   Cp dp (path_join slash_runner [''/tmp/StaticSitesClient-1.0.020761-stable'',
                                                  filename_of (pathname u)]),
                   Chmod (path_join slash_runner [''/tmp/StaticSitesClient-1.0.020761-stable'',
                                                  filename_of (pathname u)]) mode_0755] @ post"
    by simp blast
  with r z g c show ?thesis by blast
qed

text \<open>
  C10 as stated fails where it says that the artifact is copied onto the install
  directory path itself rather than into a file inside it. The path of the address
  \<^verbatim>\<open>https://example.org/linux/\<close> ends with a slash and the file name is empty; \<^verbatim>\<open>io.cp\<close> is
  called with the install directory as the destination, which \<^verbatim>\<open>io.mkdirP\<close> has created,
  and copies the artifact into a file inside it: after the run the install path is
  still a directory and the artifact is the file \<^verbatim>\<open>u1\<close> in it, named after the download
  path \<^verbatim>\<open>/tmp/u1\<close>.
\<close>

theorem artifact_copied_into_directory_counterexample:
  "fst (getDownloadUrl slash_runner slash_entry)
       = Returned (\<lparr>href = ''https://example.org/linux/'', pathname = ''/linux/''\<rparr>, [])
   \<and> fst (Install slash_runner inputs0) =
       Returned \<lparr>name = ''StaticSitesClient'', result_version = Some ''stable'',
                 path = ''/tmp/StaticSitesClient-1.0.020761-stable'',
                 restoredFromCache = False, downloadUrl = Some ''https://example.org/linux/''\<rparr>
   \<and> Cp ''/tmp/u1'' ''/tmp/StaticSitesClient-1.0.020761-stable''
        \<in> set (snd (Install slash_runner inputs0))
   \<and> files_after slash_runner mode_0644 mode_0755 (snd (Install slash_runner inputs0)) no_files
       ''/tmp/StaticSitesClient-1.0.020761-stable'' = Some (Directory mode_0755)
   \<and> files_after slash_runner mode_0644 mode_0755 (snd (Install slash_runner inputs0)) no_files
       ''/tmp/StaticSitesClient-1.0.020761-stable/u1''
       = Some (File ''https://example.org/linux/'' mode_0644)"
proof -
  have "fst (getDownloadUrl slash_runner slash_entry)
       = Returned (\<lparr>href = ''https://example.org/linux/'', pathname = ''/linux/''\<rparr>, [])"
    by (simp add: eval_simps host_defs)
  moreover have "fst (Install slash_runner inputs0) =
       Returned \<lparr>name = ''StaticSitesClient'', result_version = Some ''stable'',
                 path = ''/tmp/StaticSitesClient-1.0.020761-stable'',
                 restoredFromCache = False, downloadUrl = Some ''https://example.org/linux/''\<rparr>
   \<and> Cp ''/tmp/u1'' ''/tmp/StaticSitesClient-1.0.020761-stable''
        \<in> set (snd (Install slash_runner inputs0))
   \<and> files_after slash_runner mode_0644 mode_0755 (snd (Install slash_runner inputs0)) no_files
       ''/tmp/StaticSitesClient-1.0.020761-stable'' = Some (Directory mode_0755)
   \<and> files_after slash_runner mode_0644 mode_0755 (snd (Install slash_runner inputs0)) no_files
       ''/tmp/StaticSitesClient-1.0.020761-stable/u1''
       = Some (File ''https://example.org/linux/'' mode_0644)"
    unfolding slash_runner_run fst_conv snd_conv
    by (simp add: files_after_def file_call_def host_defs path_join_def
        basename_def below_def no_files_def mode_0644_def mode_0755_def)
  ultimately show ?thesis by simp
qed

end
